theory Spec2Isabelle
  imports Complex_Main "HOL-Library.AList"
begin

section \<open>JavaScript values\<close>

text \<open>
  The converter of \<^verbatim>\<open>src/index.js\<close> walks a resolved Avro type (built by the
  \<^verbatim>\<open>avsc\<close> library) and returns a JSON Schema as a plain JavaScript object. A JavaScript
  object is modelled by the list of its own enumerable properties in insertion order
  (the order in which JavaScript enumerates keys that are not array indices, as Avro
  names and the keys written by the converters are), a number by the real it denotes.
  A value that is an object built by the converters is given by its properties
  (\<open>JObj\<close>); a value that is an object held elsewhere as well is given by its address in
  the store (\<open>JRef\<close>, used by the converters on a store below).
\<close>

datatype json =
    JNull
  | JBool bool
  | JNum real
  | JStr string
  | JArr "json list"
  | JObj "(string \<times> json) list"
  | JRef nat

type_synonym fragment = "(string \<times> json) list"

text \<open>
  \<^verbatim>\<open>obj[k] = v\<close> on an object whose prototype is \<^verbatim>\<open>Object.prototype\<close>: an existing own
  property keeps its place, a new one is appended. The key \<^verbatim>\<open>__proto__\<close> is the accessor
  of \<^verbatim>\<open>Object.prototype\<close>: assigning an object to it replaces the prototype and creates
  no own property.
\<close>

definition js_set :: "string \<Rightarrow> 'v \<Rightarrow> (string \<times> 'v) list \<Rightarrow> (string \<times> 'v) list" where
  "js_set k v obj = (if k = ''__proto__'' then obj else AList.update k v obj)"

text \<open>
  \<^verbatim>\<open>obj[k]\<close> reads the own property, and otherwise goes to \<^verbatim>\<open>Object.prototype\<close>, whose
  members are functions, apart from the accessor \<^verbatim>\<open>__proto__\<close>, which yields the
  prototype object itself.
\<close>

definition object_prototype_functions :: "string list" where
  "object_prototype_functions =
     [''constructor'', ''__defineGetter__'', ''__defineSetter__'', ''hasOwnProperty'',
      ''__lookupGetter__'', ''__lookupSetter__'', ''isPrototypeOf'', ''propertyIsEnumerable'',
      ''toString'', ''valueOf'', ''toLocaleString'']"

datatype 'v property = Own 'v | Inherited_function string | Inherited_object | Undefined

definition js_get :: "(string \<times> 'v) list \<Rightarrow> string \<Rightarrow> 'v property" where
  "js_get obj k =
     (case map_of obj k of
        Some v \<Rightarrow> Own v
      | None \<Rightarrow>
          if k = ''__proto__'' then Inherited_object
          else if k \<in> set object_prototype_functions then Inherited_function k
          else Undefined)"

text \<open>
  \<^verbatim>\<open>Object.assign(target, ...sources)\<close> assigns the own properties of each source in turn.
  A source that is \<^verbatim>\<open>false\<close> contributes nothing: \<^verbatim>\<open>c && obj\<close> is modelled by
  \<open>js_and\<close>, which is the empty object when the condition fails.
\<close>

definition object_assign ::
  "(string \<times> 'v) list \<Rightarrow> (string \<times> 'v) list list \<Rightarrow> (string \<times> 'v) list" where
  "object_assign target sources =
     fold (\<lambda>source. fold (\<lambda>(k, v). js_set k v) source) sources target"

definition js_and :: "bool \<Rightarrow> (string \<times> 'v) list \<Rightarrow> (string \<times> 'v) list" where
  "js_and b obj = (if b then obj else [])"

text \<open>\<^verbatim>\<open>s.split(c)\<close>, \<^verbatim>\<open>xs[i]\<close> (\<open>None\<close> is \<^verbatim>\<open>undefined\<close>) and \<^verbatim>\<open>s.replace(pat, rep)\<close>,
  which replaces the first occurrence only.\<close>

fun js_split :: "char \<Rightarrow> string \<Rightarrow> string list" where
  "js_split c [] = [[]]"
| "js_split c (x # xs) =
     (if x = c then [] # js_split c xs
      else (case js_split c xs of
              [] \<Rightarrow> [[x]]
            | y # ys \<Rightarrow> (x # y) # ys))"

fun js_index :: "'a list \<Rightarrow> nat \<Rightarrow> 'a option" where
  "js_index [] i = None"
| "js_index (x # xs) 0 = Some x"
| "js_index (x # xs) (Suc i) = js_index xs i"

fun js_replace :: "string \<Rightarrow> string \<Rightarrow> string \<Rightarrow> string" where
  "js_replace pat rep [] = (if pat = [] then rep else [])"
| "js_replace pat rep (x # xs) =
     (if take (length pat) (x # xs) = pat then rep @ drop (length pat) (x # xs)
      else x # js_replace pat rep xs)"

text \<open>A property key that is \<^verbatim>\<open>undefined\<close> is the string \<^verbatim>\<open>"undefined"\<close>.\<close>

definition property_key :: "string option \<Rightarrow> string" where
  "property_key k = (case k of None \<Rightarrow> ''undefined'' | Some s \<Rightarrow> s)"

subsection \<open>Number arithmetic\<close>

text \<open>
  A JavaScript number is an IEEE 754 double: 53 significant bits, every operation rounded
  to the nearest double, ties to the even significand. The bounds of the converter are
  integers, so the rounding is written on integers (of magnitude below \<open>2 ^ 1024\<close>).
\<close>

fun bit_length :: "nat \<Rightarrow> nat" where
  "bit_length n = (if n = 0 then 0 else Suc (bit_length (n div 2)))"

declare bit_length.simps [simp del]

definition to_double :: "int \<Rightarrow> int" where
  "to_double n =
     (let m = nat \<bar>n\<bar>;
          k = bit_length m - 53;
          q = m div 2 ^ k;
          r = m mod 2 ^ k;
          up = (2 ^ k < 2 * r \<or> (2 * r = 2 ^ k \<and> odd q))
      in sgn n * int ((if up then q + 1 else q) * 2 ^ k))"

definition js_pow :: "int \<Rightarrow> nat \<Rightarrow> int" where
  "js_pow a b = to_double (a ^ b)"

definition js_sub :: "int \<Rightarrow> int \<Rightarrow> int" where
  "js_sub a b = to_double (a - b)"

definition js_neg :: "int \<Rightarrow> int" where
  "js_neg a = - a"

section \<open>The resolved Avro type\<close>

text \<open>
  One constructor per class of \<^verbatim>\<open>avsc\<close>; a record field carries its name, its type and
  what \<^verbatim>\<open>field.defaultValue()\<close> returns (\<open>None\<close> is \<^verbatim>\<open>undefined\<close>: no default). A
  logical type carries its \<^verbatim>\<open>typeName\<close> and the type it refines.
\<close>

datatype avro_type =
    NullType
  | BooleanType
  | IntType
  | LongType
  | FloatType
  | DoubleType
  | StringType
  | BytesType
  | FixedType nat
  | EnumType "string list"
  | ArrayType avro_type
  | MapType avro_type
  | RecordType "field list"
  | UnwrappedUnionType "avro_type list"
  | WrappedUnionType "avro_type list"
  | LogicalType string avro_type
and field =
    Field (field_name: string) (field_type: avro_type) (defaultValue: "json option")

text \<open>
  A conversion returns a fragment, throws, or leaves the converters of this program
  (\<open>Outside\<close>): it has called a member that a plain object inherits from
  \<^verbatim>\<open>Object.prototype\<close>, or a method of the class that is not a converter of nodes, and
  what that call returns is not a fragment built here.
\<close>

datatype error = JSError string

abbreviation TypeError :: error where
  "TypeError \<equiv> JSError ''TypeError''"

datatype stop = Throws error | Outside string

type_synonym outcome = "stop + fragment"

text \<open>
  A function of the logical-type registry is given by the outcome of calling it on a node:
  it returns a new plain object at every call, or throws, and has no other effect (the
  converters on a store below lift both assumptions). The converter instance holds the
  two properties that \<^verbatim>\<open>setupLogicalTypes\<close> assigns; its registry is a plain object,
  with the prototype that \<open>js_get\<close> assumes.
\<close>

type_synonym logical_converter = "avro_type \<Rightarrow> outcome"

record 'f converter =
  logicalTypeConvertors :: "(string \<times> 'f) list"
  logicalTypeFakeClasses :: "(string \<times> unit) list"

record ConverterOptions =
  logicalTypes :: "(string \<times> logical_converter) list option"

record ForSchemaOptions =
  noAnonymousTypes :: bool
  fakeClasses :: "(string \<times> unit) list"

record schema =
  schema_type :: string
  properties :: "(string \<times> json) list"
  required :: "string list"

text \<open>The attributes that the converters read off a node; \<open>None\<close> is \<^verbatim>\<open>undefined\<close>.\<close>

fun constructor_name :: "avro_type \<Rightarrow> string" where
  "constructor_name NullType = ''NullType''"
| "constructor_name BooleanType = ''BooleanType''"
| "constructor_name IntType = ''IntType''"
| "constructor_name LongType = ''LongType''"
| "constructor_name FloatType = ''FloatType''"
| "constructor_name DoubleType = ''DoubleType''"
| "constructor_name StringType = ''StringType''"
| "constructor_name BytesType = ''BytesType''"
| "constructor_name (FixedType _) = ''FixedType''"
| "constructor_name (EnumType _) = ''EnumType''"
| "constructor_name (ArrayType _) = ''ArrayType''"
| "constructor_name (MapType _) = ''MapType''"
| "constructor_name (RecordType _) = ''RecordType''"
| "constructor_name (UnwrappedUnionType _) = ''UnwrappedUnionType''"
| "constructor_name (WrappedUnionType _) = ''WrappedUnionType''"
| "constructor_name (LogicalType _ _) = ''LogicalType''"

fun instanceof_LogicalType :: "avro_type \<Rightarrow> bool" where
  "instanceof_LogicalType (LogicalType _ _) = True"
| "instanceof_LogicalType _ = False"

fun fields :: "avro_type \<Rightarrow> field list option" where
  "fields (RecordType fs) = Some fs"
| "fields _ = None"

fun symbols :: "avro_type \<Rightarrow> string list option" where
  "symbols (EnumType ss) = Some ss"
| "symbols _ = None"

fun itemsType :: "avro_type \<Rightarrow> avro_type option" where
  "itemsType (ArrayType t) = Some t"
| "itemsType _ = None"

fun types :: "avro_type \<Rightarrow> avro_type list option" where
  "types (UnwrappedUnionType ts) = Some ts"
| "types (WrappedUnionType ts) = Some ts"
| "types _ = None"

fun fixed_size :: "avro_type \<Rightarrow> nat option" where
  "fixed_size (FixedType n) = Some n"
| "fixed_size _ = None"

section \<open>The logical-type registry\<close>

definition decimal :: logical_converter where
  "decimal type = Inr [(''type'', JStr ''number'')]"

definition timestampMillis :: logical_converter where
  "timestampMillis type =
     Inr [(''type'', JStr ''integer''),
          (''minimum'', JNum 1),
          (''maximum'', JNum (of_int (js_sub (js_pow 2 63) 1)))]"

definition date :: logical_converter where
  "date type =
     Inr [(''type'', JStr ''integer''),
          (''minimum'', JNum 1),
          (''maximum'', JNum (of_int (js_sub (js_pow 2 63) 1)))]"

definition defaultLogicalTypes :: "(string \<times> logical_converter) list" where
  "defaultLogicalTypes =
     [(''decimal'', decimal), (''date'', date), (''timestamp-millis'', timestampMillis)]"

text \<open>
  \<^verbatim>\<open>setupLogicalTypes(logicalTypes = {})\<close>: the registry is the built-ins overlaid with the
  caller's mapping, and every name of the registry gets a marker class (modelled by
  \<open>()\<close>) for the type resolution of \<^verbatim>\<open>avsc\<close>.
\<close>

definition setupLogicalTypes :: "(string \<times> logical_converter) list option \<Rightarrow> logical_converter converter" where
  "setupLogicalTypes logical_types =
     (let convertors =
            object_assign []
              [defaultLogicalTypes, (case logical_types of None \<Rightarrow> [] | Some given \<Rightarrow> given)]
      in \<lparr>logicalTypeConvertors = convertors,
          logicalTypeFakeClasses =
            fold (\<lambda>logicalTypeName classes. js_set logicalTypeName () classes)
              (map fst convertors) []\<rparr>)"

text \<open>\<^verbatim>\<open>new Avro2JSONSchemaConverter(options = {})\<close>.\<close>

definition Avro2JSONSchemaConverter :: "ConverterOptions option \<Rightarrow> logical_converter converter" where
  "Avro2JSONSchemaConverter options =
     setupLogicalTypes (case options of None \<Rightarrow> None | Some given \<Rightarrow> logicalTypes given)"

section \<open>Dispatch\<close>

text \<open>
  \<^verbatim>\<open>this[fnName]\<close> finds the methods of the class. \<^verbatim>\<open>resolveConverter\<close> returns the
  function it found, bound to the instance: a method of the class, a function of the
  registry, or a function inherited by the registry object. Taking \<^verbatim>\<open>.bind\<close> of
  \<^verbatim>\<open>undefined\<close>, or of the prototype object, throws a \<^verbatim>\<open>TypeError\<close>.
\<close>

definition convert_methods :: "string list" where
  "convert_methods =
     [''convertRecord'', ''convertEnum'', ''convertArray'', ''convertUnwrappedUnion'',
      ''convertWrappedUnion'', ''convertFixed'', ''convertBytes'', ''convertFloat'',
      ''convertDouble'', ''convertBoolean'', ''convertString'', ''convertNull'',
      ''convertLong'', ''convertInt'', ''convertUnion'', ''convertBuffer'']"

datatype 'f callee = Method string | Registered 'f | Builtin string

definition logical_name :: "string \<Rightarrow> string" where
  "logical_name name = property_key (js_index (js_split CHR '':'' name) 1)"

definition resolveConverter :: "'f converter \<Rightarrow> avro_type \<Rightarrow> error + 'f callee" where
  "resolveConverter this type =
     (case type of
        LogicalType typeName underlyingType \<Rightarrow>
          (case js_get (logicalTypeConvertors this) (logical_name typeName) of
             Own f \<Rightarrow> Inr (Registered f)
           | Inherited_function k \<Rightarrow> Inr (Builtin k)
           | Inherited_object \<Rightarrow> Inl TypeError
           | Undefined \<Rightarrow> Inl TypeError)
      | _ \<Rightarrow>
          (let typeName = constructor_name type;
               fnName = ''convert'' @ js_replace ''Type'' [] typeName
           in if fnName \<in> set convert_methods then Inr (Method fnName) else Inl TypeError))"

section \<open>Kind converters\<close>

definition buffer_pattern :: string where
  "buffer_pattern = ''^['' @ [CHR 0x00] @ ''-'' @ [CHR 0xFF] @ '']*$''"

definition convertBuffer :: "nat option \<Rightarrow> nat option \<Rightarrow> fragment" where
  "convertBuffer min_length max_length =
     object_assign [(''type'', JStr ''string''), (''pattern'', JStr buffer_pattern)]
       [js_and (max_length \<noteq> None) [(''maxLength'', JNum (real (the max_length)))],
        js_and (min_length \<noteq> None) [(''minLength'', JNum (real (the min_length)))]]"

definition convertFixed :: "avro_type \<Rightarrow> fragment" where
  "convertFixed type = convertBuffer (fixed_size type) (fixed_size type)"

definition convertBytes :: fragment where
  "convertBytes = convertBuffer None None"

definition convertFloat :: fragment where
  "convertFloat = [(''type'', JStr ''number'')]"

definition convertDouble :: fragment where
  "convertDouble = convertFloat"

definition convertBoolean :: fragment where
  "convertBoolean = [(''type'', JStr ''boolean'')]"

definition convertString :: fragment where
  "convertString = [(''type'', JStr ''string'')]"

definition convertNull :: fragment where
  "convertNull = [(''type'', JStr ''null'')]"

definition convertLong :: fragment where
  "convertLong =
     [(''type'', JStr ''integer''),
      (''minimum'', JNum (of_int (js_neg (js_pow 2 63)))),
      (''maximum'', JNum (of_int (js_sub (js_pow 2 63) 1)))]"

definition convertInt :: fragment where
  "convertInt =
     [(''type'', JStr ''integer''),
      (''minimum'', JNum (of_int (js_neg (js_pow 2 31)))),
      (''maximum'', JNum (of_int (js_sub (js_pow 2 31) 1)))]"

definition convertEnum :: "avro_type \<Rightarrow> outcome" where
  "convertEnum type =
     (case symbols type of
        None \<Rightarrow> Inl (Throws TypeError)
      | Some ss \<Rightarrow> Inr [(''type'', JStr ''string''), (''enum'', JArr (map JStr ss))])"

definition schema_fragment :: "schema \<Rightarrow> fragment" where
  "schema_fragment s =
     [(''type'', JStr (schema_type s)),
      (''properties'', JObj (properties s)),
      (''required'', JArr (map JStr (required s)))]"

text \<open>
  The object that a converter function returns is a new one, which nothing but the
  returned value refers to (\<open>Fresh\<close>, as the object literals of the kind converters and
  of the built-ins are), or an object that exists apart from the call (\<open>Shared\<close>): one
  that the registered function or its caller keeps, returns again, or has taken from
  elsewhere. Such an object is an object of the store, given by its address. The store
  holds every object that exists before a conversion starts or that a registered
  function keeps: it is everything that the registered functions can reach, the state
  they keep included.
\<close>

datatype returned = Fresh fragment | Shared nat

type_synonym store = "nat \<Rightarrow> fragment"

fun as_value :: "returned \<Rightarrow> json" where
  "as_value (Fresh object) = JObj object"
| "as_value (Shared a) = JRef a"

text \<open>
  The body of the \<^verbatim>\<open>forEach\<close> of \<^verbatim>\<open>convertRecord\<close>, for a field whose type has been
  converted. The object returned for the type is stored under the field's name. When the
  field has a default, the default is then written into that very object: into the
  object just stored when it is a new one, into the store when it is an object of the
  store (the property holds the reference, and everything else that holds the object sees
  the write). When the field has no default, its name is pushed on \<^verbatim>\<open>required\<close>.
\<close>

definition field_body_st :: "field \<Rightarrow> returned \<Rightarrow> schema \<Rightarrow> store \<Rightarrow> schema \<times> store" where
  "field_body_st field converted schema store =
     (let stored = js_set (field_name field) (as_value converted) (properties schema)
      in case defaultValue field of
           Some d \<Rightarrow>
             (case converted of
                Fresh object \<Rightarrow>
                  (schema\<lparr>properties :=
                     js_set (field_name field) (JObj (js_set ''default'' d object)) stored\<rparr>,
                   store)
              | Shared a \<Rightarrow>
                  (schema\<lparr>properties := stored\<rparr>,
                   store(a := js_set ''default'' d (store a))))
         | None \<Rightarrow>
             (schema\<lparr>properties := stored, required := required schema @ [field_name field]\<rparr>,
              store))"

text \<open>
  The same body for a converted fragment that is a new object: the store plays no part,
  and the loop of \<^verbatim>\<open>convertRecord\<close> over such fragments stops at the first field whose
  conversion does not return.
\<close>

definition field_body :: "field \<Rightarrow> fragment \<Rightarrow> schema \<Rightarrow> schema" where
  "field_body field converted schema =
     fst (field_body_st field (Fresh converted) schema (\<lambda>a. []))"

fun forEach_field :: "(field \<times> outcome) list \<Rightarrow> schema \<Rightarrow> stop + schema" where
  "forEach_field [] schema = Inr schema"
| "forEach_field ((field, r) # rest) schema =
     (case r of
        Inl s \<Rightarrow> Inl s
      | Inr converted \<Rightarrow> forEach_field rest (field_body field converted schema))"

text \<open>\<^verbatim>\<open>xs.map(f)\<close> where \<open>f\<close> may throw: the first element that does not return decides.\<close>

fun sequence :: "(stop + 'a) list \<Rightarrow> stop + 'a list" where
  "sequence [] = Inr []"
| "sequence (r # rs) =
     (case r of
        Inl s \<Rightarrow> Inl s
      | Inr x \<Rightarrow> (case sequence rs of Inl s \<Rightarrow> Inl s | Inr xs \<Rightarrow> Inr (x # xs)))"

text \<open>
  The recursive converters. \<open>convertType this type\<close> is the expression
  \<^verbatim>\<open>this.resolveConverter(type)(type)\<close>, and \<open>call\<close> runs the function that
  \<^verbatim>\<open>resolveConverter\<close> returned.
\<close>

function convertType :: "logical_converter converter \<Rightarrow> avro_type \<Rightarrow> outcome"
  and call :: "logical_converter converter \<Rightarrow> logical_converter callee \<Rightarrow> avro_type \<Rightarrow> outcome"
  and convertRecord :: "logical_converter converter \<Rightarrow> avro_type \<Rightarrow> outcome"
  and convertArray :: "logical_converter converter \<Rightarrow> avro_type \<Rightarrow> outcome"
  and convertUnwrappedUnion :: "logical_converter converter \<Rightarrow> avro_type \<Rightarrow> outcome"
  and convertWrappedUnion :: "logical_converter converter \<Rightarrow> avro_type \<Rightarrow> outcome"
  and convertUnion :: "logical_converter converter \<Rightarrow> avro_type \<Rightarrow> outcome"
where
  "convertType this type =
     (case resolveConverter this type of
        Inl e \<Rightarrow> Inl (Throws e)
      | Inr convert \<Rightarrow> call this convert type)"
| "call this convert type =
     (case convert of
        Registered f \<Rightarrow> f type
      | Builtin k \<Rightarrow> Inl (Outside k)
      | Method m \<Rightarrow>
          if m = ''convertRecord'' then convertRecord this type
          else if m = ''convertEnum'' then convertEnum type
          else if m = ''convertArray'' then convertArray this type
          else if m = ''convertUnwrappedUnion'' then convertUnwrappedUnion this type
          else if m = ''convertWrappedUnion'' then convertWrappedUnion this type
          else if m = ''convertFixed'' then Inr (convertFixed type)
          else if m = ''convertBytes'' then Inr convertBytes
          else if m = ''convertFloat'' then Inr convertFloat
          else if m = ''convertDouble'' then Inr convertDouble
          else if m = ''convertBoolean'' then Inr convertBoolean
          else if m = ''convertString'' then Inr convertString
          else if m = ''convertNull'' then Inr convertNull
          else if m = ''convertLong'' then Inr convertLong
          else if m = ''convertInt'' then Inr convertInt
          else if m = ''convertUnion'' then convertUnion this type
          else Inl (Outside m))"
| "convertRecord this type =
     (case fields type of
        None \<Rightarrow> Inl (Throws TypeError)
      | Some fs \<Rightarrow>
          (case forEach_field (map (\<lambda>field. (field, convertType this (field_type field))) fs)
                  \<lparr>schema_type = ''object'', properties = [], required = []\<rparr> of
             Inl s \<Rightarrow> Inl s
           | Inr schema \<Rightarrow> Inr (schema_fragment schema)))"
| "convertArray this type =
     (case itemsType type of
        None \<Rightarrow> Inl (Throws TypeError)
      | Some items \<Rightarrow>
          (case convertType this items of
             Inl s \<Rightarrow> Inl s
           | Inr converted \<Rightarrow> Inr [(''type'', JStr ''array''), (''items'', JObj converted)]))"
| "convertUnwrappedUnion this type = convertUnion this type"
| "convertWrappedUnion this type = convertUnion this type"
| "convertUnion this type =
     (case types type of
        None \<Rightarrow> Inl (Throws TypeError)
      | Some ts \<Rightarrow>
          (case sequence (map (\<lambda>type. convertType this type) ts) of
             Inl s \<Rightarrow> Inl s
           | Inr converted \<Rightarrow> Inr [(''oneOf'', JArr (map JObj converted))]))"
  by pat_completeness auto
termination
  apply (relation "measure (\<lambda>x. case x of
      Inl (Inl (this, t)) \<Rightarrow> 4 * size t + 3
    | Inl (Inr (Inl (this, c, t))) \<Rightarrow> 4 * size t + 2
    | Inl (Inr (Inr (this, t))) \<Rightarrow> 4 * size t
    | Inr (Inl (Inl (this, t))) \<Rightarrow> 4 * size t
    | Inr (Inl (Inr (this, t))) \<Rightarrow> 4 * size t + 1
    | Inr (Inr (Inl (this, t))) \<Rightarrow> 4 * size t + 1
    | Inr (Inr (Inr (this, t))) \<Rightarrow> 4 * size t)")
  apply simp_all
  subgoal for type fs f
  proof -
    assume "fields type = Some fs" and "f \<in> set fs"
    from \<open>f \<in> set fs\<close> have "size f \<le> size_list size fs"
      by (rule size_list_estimation') simp
    moreover have "size (field_type f) < size f"
      by (cases f) simp
    moreover from \<open>fields type = Some fs\<close> have "size_list size fs < size type"
      by (cases type) auto
    ultimately show ?thesis by simp
  qed
  subgoal for type t
    by (cases type) auto
  subgoal for type ts t
  proof -
    assume "types type = Some ts" and "t \<in> set ts"
    from \<open>t \<in> set ts\<close> have "size t \<le> size_list size ts"
      by (rule size_list_estimation') simp
    moreover from \<open>types type = Some ts\<close> have "size_list size ts < size type"
      by (cases type) auto
    ultimately show ?thesis by simp
  qed
  done

declare convertType.simps [simp del] call.simps [simp del] convertRecord.simps [simp del]
  convertArray.simps [simp del] convertUnwrappedUnion.simps [simp del]
  convertWrappedUnion.simps [simp del] convertUnion.simps [simp del]

text \<open>
  \<^verbatim>\<open>convert(schema)\<close>: the schema is resolved by \<^verbatim>\<open>avro.Type.forSchema\<close> of the library
  \<^verbatim>\<open>avsc\<close>, which is not part of this program and is a parameter here; the resolved
  type is then converted.
\<close>

definition convert ::
  "('a \<Rightarrow> ForSchemaOptions \<Rightarrow> error + avro_type) \<Rightarrow> logical_converter converter \<Rightarrow>
   'a \<Rightarrow> outcome" where
  "convert forSchema this schema =
     (case forSchema schema
             \<lparr>noAnonymousTypes = True, fakeClasses = logicalTypeFakeClasses this\<rparr> of
        Inl e \<Rightarrow> Inl (Throws e)
      | Inr type \<Rightarrow>
          (case resolveConverter this type of
             Inl e \<Rightarrow> Inl (Throws e)
           | Inr convert \<Rightarrow> call this convert type))"

section \<open>The walk\<close>

text \<open>
  The nodes that a conversion of \<open>t\<close> converts in turn: the item type of an array, the
  field types of a record, the members of a union, and so on below them. A logical type
  hands its node to the registry function, and the walk ends there.
\<close>

fun children :: "avro_type \<Rightarrow> avro_type list" where
  "children (ArrayType t) = [t]"
| "children (RecordType fs) = map field_type fs"
| "children (UnwrappedUnionType ts) = ts"
| "children (WrappedUnionType ts) = ts"
| "children _ = []"

inductive walks_to :: "avro_type \<Rightarrow> avro_type \<Rightarrow> bool" where
  here: "walks_to t t"
| below: "c \<in> set (children t) \<Longrightarrow> walks_to c n \<Longrightarrow> walks_to t n"

section \<open>The converters on a store\<close>

text \<open>
  The functions that a caller registers are JavaScript functions: they may keep state,
  and they may return an object that they, or the caller, hold as well. The converters
  above take a registered function for a function of the node that returns a new object.
  Here they are written with the store threaded through every call in evaluation order:
  a registered function maps a node and a store to what it returns and a store, and
  \<^verbatim>\<open>convertRecord\<close> writes a field's default into the object returned for the field's
  type, wherever that object lives.

  The assignments of the converters are these and no other: the properties of the object
  literal that a converter has just built, the key of \<^verbatim>\<open>properties\<close> and the push on
  \<^verbatim>\<open>required\<close> in \<^verbatim>\<open>convertRecord\<close>, both on objects built by that call, and the key
  \<^verbatim>\<open>default\<close> of the object returned for a field's type. So the one write that can
  reach an object existing before the call is the write of \<^verbatim>\<open>default\<close>, which the store
  records. The converters read the nodes of the tree through \<^verbatim>\<open>fields\<close>, \<^verbatim>\<open>name\<close>,
  \<^verbatim>\<open>type\<close>, \<^verbatim>\<open>defaultValue()\<close>, \<^verbatim>\<open>symbols\<close>, \<^verbatim>\<open>itemsType\<close>, \<^verbatim>\<open>types\<close>,
  \<^verbatim>\<open>size\<close>, \<^verbatim>\<open>typeName\<close> and the class of the node, never through a key \<^verbatim>\<open>default\<close>, and
  they assign nothing to the instance after the constructor: the tree and the instance
  stay parameters of the converters. A registered function that returns the registry
  object of the instance itself, into which a default would then be written as an entry,
  is left out.
\<close>

type_synonym registered = "avro_type \<Rightarrow> store \<Rightarrow> (stop + returned) \<times> store"

text \<open>What a kind converter returns is a new object.\<close>

definition fresh :: "outcome \<Rightarrow> stop + returned" where
  "fresh r = (case r of Inl x \<Rightarrow> Inl x | Inr object \<Rightarrow> Inr (Fresh object))"

text \<open>A function of the node that returns a new object, such as a built-in, as a
  registered function.\<close>

definition pure_function :: "logical_converter \<Rightarrow> registered" where
  "pure_function f type s = (fresh (f type), s)"

definition setupLogicalTypes_st ::
  "(string \<times> registered) list option \<Rightarrow> registered converter" where
  "setupLogicalTypes_st logical_types =
     (let convertors =
            object_assign []
              [map (\<lambda>(name, f). (name, pure_function f)) defaultLogicalTypes,
               (case logical_types of None \<Rightarrow> [] | Some given \<Rightarrow> given)]
      in \<lparr>logicalTypeConvertors = convertors,
          logicalTypeFakeClasses =
            fold (\<lambda>logicalTypeName classes. js_set logicalTypeName () classes)
              (map fst convertors) []\<rparr>)"

text \<open>
  The converters with the store threaded: the equations of the converters above, the
  loops over the fields and over the members written out (\<open>forEach_field_st\<close>,
  \<open>map_types_st\<close>).
\<close>

function convertType_st ::
    "registered converter \<Rightarrow> avro_type \<Rightarrow> store \<Rightarrow> (stop + returned) \<times> store"
  and call_st ::
    "registered converter \<Rightarrow> registered callee \<Rightarrow> avro_type \<Rightarrow> store \<Rightarrow>
     (stop + returned) \<times> store"
  and convertRecord_st ::
    "registered converter \<Rightarrow> avro_type \<Rightarrow> store \<Rightarrow> (stop + returned) \<times> store"
  and forEach_field_st ::
    "registered converter \<Rightarrow> field list \<Rightarrow> schema \<Rightarrow> store \<Rightarrow> (stop + schema) \<times> store"
  and convertArray_st ::
    "registered converter \<Rightarrow> avro_type \<Rightarrow> store \<Rightarrow> (stop + returned) \<times> store"
  and convertUnwrappedUnion_st ::
    "registered converter \<Rightarrow> avro_type \<Rightarrow> store \<Rightarrow> (stop + returned) \<times> store"
  and convertWrappedUnion_st ::
    "registered converter \<Rightarrow> avro_type \<Rightarrow> store \<Rightarrow> (stop + returned) \<times> store"
  and convertUnion_st ::
    "registered converter \<Rightarrow> avro_type \<Rightarrow> store \<Rightarrow> (stop + returned) \<times> store"
  and map_types_st ::
    "registered converter \<Rightarrow> avro_type list \<Rightarrow> store \<Rightarrow> (stop + returned list) \<times> store"
where
  "convertType_st this type s =
     (case resolveConverter this type of
        Inl e \<Rightarrow> (Inl (Throws e), s)
      | Inr resolved \<Rightarrow> call_st this resolved type s)"
| "call_st this resolved type s =
     (case resolved of
        Registered f \<Rightarrow> f type s
      | Builtin k \<Rightarrow> (Inl (Outside k), s)
      | Method m \<Rightarrow>
          if m = ''convertRecord'' then convertRecord_st this type s
          else if m = ''convertEnum'' then (fresh (convertEnum type), s)
          else if m = ''convertArray'' then convertArray_st this type s
          else if m = ''convertUnwrappedUnion'' then convertUnwrappedUnion_st this type s
          else if m = ''convertWrappedUnion'' then convertWrappedUnion_st this type s
          else if m = ''convertFixed'' then (Inr (Fresh (convertFixed type)), s)
          else if m = ''convertBytes'' then (Inr (Fresh convertBytes), s)
          else if m = ''convertFloat'' then (Inr (Fresh convertFloat), s)
          else if m = ''convertDouble'' then (Inr (Fresh convertDouble), s)
          else if m = ''convertBoolean'' then (Inr (Fresh convertBoolean), s)
          else if m = ''convertString'' then (Inr (Fresh convertString), s)
          else if m = ''convertNull'' then (Inr (Fresh convertNull), s)
          else if m = ''convertLong'' then (Inr (Fresh convertLong), s)
          else if m = ''convertInt'' then (Inr (Fresh convertInt), s)
          else if m = ''convertUnion'' then convertUnion_st this type s
          else (Inl (Outside m), s))"
| "convertRecord_st this type s =
     (case fields type of
        None \<Rightarrow> (Inl (Throws TypeError), s)
      | Some fs \<Rightarrow>
          (case forEach_field_st this fs
                  \<lparr>schema_type = ''object'', properties = [], required = []\<rparr> s of
             (Inl x, s') \<Rightarrow> (Inl x, s')
           | (Inr schema, s') \<Rightarrow> (Inr (Fresh (schema_fragment schema)), s')))"
| "forEach_field_st this [] schema s = (Inr schema, s)"
| "forEach_field_st this (field # rest) schema s =
     (case convertType_st this (field_type field) s of
        (Inl x, s') \<Rightarrow> (Inl x, s')
      | (Inr converted, s') \<Rightarrow>
          forEach_field_st this rest
            (fst (field_body_st field converted schema s'))
            (snd (field_body_st field converted schema s')))"
| "convertArray_st this type s =
     (case itemsType type of
        None \<Rightarrow> (Inl (Throws TypeError), s)
      | Some items \<Rightarrow>
          (case convertType_st this items s of
             (Inl x, s') \<Rightarrow> (Inl x, s')
           | (Inr converted, s') \<Rightarrow>
               (Inr (Fresh [(''type'', JStr ''array''), (''items'', as_value converted)]), s')))"
| "convertUnwrappedUnion_st this type s = convertUnion_st this type s"
| "convertWrappedUnion_st this type s = convertUnion_st this type s"
| "convertUnion_st this type s =
     (case types type of
        None \<Rightarrow> (Inl (Throws TypeError), s)
      | Some ts \<Rightarrow>
          (case map_types_st this ts s of
             (Inl x, s') \<Rightarrow> (Inl x, s')
           | (Inr converted, s') \<Rightarrow>
               (Inr (Fresh [(''oneOf'', JArr (map as_value converted))]), s')))"
| "map_types_st this [] s = (Inr [], s)"
| "map_types_st this (type # rest) s =
     (case convertType_st this type s of
        (Inl x, s') \<Rightarrow> (Inl x, s')
      | (Inr converted, s') \<Rightarrow>
          (case map_types_st this rest s' of
             (Inl x, s'') \<Rightarrow> (Inl x, s'')
           | (Inr others, s'') \<Rightarrow> (Inr (converted # others), s'')))"
  by pat_completeness auto
termination
  apply (relation "measure (\<lambda>x. case x of
      Inl (Inl (Inl (this, t, s))) \<Rightarrow> 4 * size t + 3
    | Inl (Inl (Inr (this, c, t, s))) \<Rightarrow> 4 * size t + 2
    | Inl (Inr (Inl (this, t, s))) \<Rightarrow> 4 * size t
    | Inl (Inr (Inr (this, fs, sch, s))) \<Rightarrow> 4 * size_list size fs + 3
    | Inr (Inl (Inl (this, t, s))) \<Rightarrow> 4 * size t
    | Inr (Inl (Inr (this, t, s))) \<Rightarrow> 4 * size t + 1
    | Inr (Inr (Inl (this, t, s))) \<Rightarrow> 4 * size t + 1
    | Inr (Inr (Inr (Inl (this, t, s)))) \<Rightarrow> 4 * size t
    | Inr (Inr (Inr (Inr (this, ts, s)))) \<Rightarrow> 4 * size_list size ts + 3)")
  apply simp_all
  subgoal for type fs by (cases type) auto
  subgoal for field rest by (cases field) auto
  subgoal for type t by (cases type) auto
  subgoal for type ts by (cases type) auto
  done

declare convertType_st.simps [simp del] call_st.simps [simp del]
  convertRecord_st.simps [simp del] convertArray_st.simps [simp del]
  convertUnwrappedUnion_st.simps [simp del] convertWrappedUnion_st.simps [simp del]
  convertUnion_st.simps [simp del]

definition convert_st ::
  "('a \<Rightarrow> ForSchemaOptions \<Rightarrow> error + avro_type) \<Rightarrow> registered converter \<Rightarrow>
   'a \<Rightarrow> store \<Rightarrow> (stop + returned) \<times> store" where
  "convert_st forSchema this schema s =
     (case forSchema schema
             \<lparr>noAnonymousTypes = True, fakeClasses = logicalTypeFakeClasses this\<rparr> of
        Inl e \<Rightarrow> (Inl (Throws e), s)
      | Inr type \<Rightarrow>
          (case resolveConverter this type of
             Inl e \<Rightarrow> (Inl (Throws e), s)
           | Inr resolved \<Rightarrow> call_st this resolved type s))"

text \<open>
  What the holder of a returned object reads in it: the object itself when it is new, the
  object that the store holds at the address otherwise.
\<close>

fun read :: "store \<Rightarrow> returned \<Rightarrow> fragment" where
  "read s (Fresh object) = object"
| "read s (Shared a) = s a"

text \<open>
  A computation is effect-free when it returns the store it was given and its result does
  not depend on that store. A registered function returns new objects when no call of it
  returns an object of the store.
\<close>

definition effect_free :: "('s \<Rightarrow> 'r \<times> 's) \<Rightarrow> bool" where
  "effect_free run \<longleftrightarrow> (\<forall>s s'. snd (run s) = s \<and> fst (run s') = fst (run s))"

definition returns_new_objects :: "registered \<Rightarrow> bool" where
  "returns_new_objects f \<longleftrightarrow> (\<forall>type s a. fst (f type s) \<noteq> Inr (Shared a))"

section \<open>Evaluation of the converters, kind by kind\<close>

lemma field_body_eq:
  "field_body field converted schema =
     (case defaultValue field of
        Some d \<Rightarrow>
          schema\<lparr>properties :=
            js_set (field_name field) (JObj (js_set ''default'' d converted)) (properties schema)\<rparr>
      | None \<Rightarrow>
          schema\<lparr>properties := js_set (field_name field) (JObj converted) (properties schema),
                 required := required schema @ [field_name field]\<rparr>)"
  by (simp add: field_body_def field_body_st_def js_set_def split: option.splits)

lemma bit_length_numeral:
  "bit_length 0 = 0"
  "bit_length (Suc 0) = 1"
  "bit_length (numeral (Num.Bit0 n)) = Suc (bit_length (numeral n))"
  "bit_length (numeral (Num.Bit1 n)) = Suc (bit_length (numeral n))"
  by (simp_all add: bit_length.simps[of 0] bit_length.simps[of "Suc 0"]
      bit_length.simps[of "numeral (Num.Bit0 n)"] bit_length.simps[of "numeral (Num.Bit1 n)"])

lemma js_pow_2_63: "js_pow 2 63 = 9223372036854775808"
  by (simp add: js_pow_def to_double_def bit_length_numeral Let_def)

lemma js_pow_2_31: "js_pow 2 31 = 2147483648"
  by (simp add: js_pow_def to_double_def bit_length_numeral Let_def)

lemma js_sub_2_63_1: "js_sub 9223372036854775808 1 = 9223372036854775808"
  by (simp add: js_sub_def to_double_def bit_length_numeral Let_def)

lemma js_sub_2_31_1: "js_sub 2147483648 1 = 2147483647"
  by (simp add: js_sub_def to_double_def bit_length_numeral Let_def)

lemma resolveConverter_kind:
  "resolveConverter this NullType = Inr (Method ''convertNull'')"
  "resolveConverter this BooleanType = Inr (Method ''convertBoolean'')"
  "resolveConverter this IntType = Inr (Method ''convertInt'')"
  "resolveConverter this LongType = Inr (Method ''convertLong'')"
  "resolveConverter this FloatType = Inr (Method ''convertFloat'')"
  "resolveConverter this DoubleType = Inr (Method ''convertDouble'')"
  "resolveConverter this StringType = Inr (Method ''convertString'')"
  "resolveConverter this BytesType = Inr (Method ''convertBytes'')"
  "resolveConverter this (FixedType n) = Inr (Method ''convertFixed'')"
  "resolveConverter this (EnumType ss) = Inr (Method ''convertEnum'')"
  "resolveConverter this (ArrayType t) = Inr (Method ''convertArray'')"
  "resolveConverter this (MapType t) = Inl TypeError"
  "resolveConverter this (RecordType fs) = Inr (Method ''convertRecord'')"
  "resolveConverter this (UnwrappedUnionType ts) = Inr (Method ''convertUnwrappedUnion'')"
  "resolveConverter this (WrappedUnionType ts) = Inr (Method ''convertWrappedUnion'')"
  by (simp_all add: resolveConverter_def convert_methods_def)

lemma resolveConverter_Logical:
  "resolveConverter this (LogicalType name u) =
     (case js_get (logicalTypeConvertors this) (logical_name name) of
        Own f \<Rightarrow> Inr (Registered f)
      | Inherited_function k \<Rightarrow> Inr (Builtin k)
      | Inherited_object \<Rightarrow> Inl TypeError
      | Undefined \<Rightarrow> Inl TypeError)"
  by (simp add: resolveConverter_def)

lemma convertType_primitive:
  "convertType this NullType = Inr convertNull"
  "convertType this BooleanType = Inr convertBoolean"
  "convertType this IntType = Inr convertInt"
  "convertType this LongType = Inr convertLong"
  "convertType this FloatType = Inr convertFloat"
  "convertType this DoubleType = Inr convertDouble"
  "convertType this StringType = Inr convertString"
  "convertType this BytesType = Inr convertBytes"
  "convertType this (FixedType n) = Inr (convertFixed (FixedType n))"
  "convertType this (EnumType ss) = Inr [(''type'', JStr ''string''), (''enum'', JArr (map JStr ss))]"
  "convertType this (MapType t) = Inl (Throws TypeError)"
  by (simp_all add: convertType.simps call.simps resolveConverter_kind convertEnum_def)

lemma convertType_Array:
  "convertType this (ArrayType t) =
     (case convertType this t of
        Inl s \<Rightarrow> Inl s
      | Inr converted \<Rightarrow> Inr [(''type'', JStr ''array''), (''items'', JObj converted)])"
  by (simp add: convertType.simps[of this "ArrayType t"] call.simps resolveConverter_kind
      convertArray.simps)

lemma convertType_Record:
  "convertType this (RecordType fs) =
     (case forEach_field (map (\<lambda>field. (field, convertType this (field_type field))) fs)
             \<lparr>schema_type = ''object'', properties = [], required = []\<rparr> of
        Inl s \<Rightarrow> Inl s
      | Inr schema \<Rightarrow> Inr (schema_fragment schema))"
  by (simp add: convertType.simps[of this "RecordType fs"] call.simps resolveConverter_kind
      convertRecord.simps)

lemma convertType_UnwrappedUnion:
  "convertType this (UnwrappedUnionType ts) =
     (case sequence (map (convertType this) ts) of
        Inl s \<Rightarrow> Inl s
      | Inr converted \<Rightarrow> Inr [(''oneOf'', JArr (map JObj converted))])"
  by (simp add: convertType.simps[of this "UnwrappedUnionType ts"] call.simps
      resolveConverter_kind convertUnwrappedUnion.simps convertUnion.simps)

lemma convertType_WrappedUnion:
  "convertType this (WrappedUnionType ts) =
     (case sequence (map (convertType this) ts) of
        Inl s \<Rightarrow> Inl s
      | Inr converted \<Rightarrow> Inr [(''oneOf'', JArr (map JObj converted))])"
  by (simp add: convertType.simps[of this "WrappedUnionType ts"] call.simps
      resolveConverter_kind convertWrappedUnion.simps convertUnion.simps)

lemma convertType_Logical:
  "convertType this (LogicalType name u) =
     (case js_get (logicalTypeConvertors this) (logical_name name) of
        Own f \<Rightarrow> f (LogicalType name u)
      | Inherited_function k \<Rightarrow> Inl (Outside k)
      | Inherited_object \<Rightarrow> Inl (Throws TypeError)
      | Undefined \<Rightarrow> Inl (Throws TypeError))"
  by (simp add: convertType.simps[of this "LogicalType name u"] call.simps
      resolveConverter_Logical split: property.splits)

lemma convertBuffer_values:
  "convertBuffer None None = [(''type'', JStr ''string''), (''pattern'', JStr buffer_pattern)]"
  "convertBuffer (Some a) (Some b) =
     [(''type'', JStr ''string''), (''pattern'', JStr buffer_pattern),
      (''maxLength'', JNum (real b)), (''minLength'', JNum (real a))]"
  by (simp_all add: convertBuffer_def object_assign_def js_and_def js_set_def)

text \<open>A node that does not return stops every conversion that walks to it.\<close>

lemma sequence_Inl:
  "x \<in> set xs \<Longrightarrow> g x = Inl s \<Longrightarrow> \<exists>s'. sequence (map g xs) = Inl s'"
  by (induction xs) (auto split: sum.splits)

lemma forEach_field_Inl:
  "f \<in> set fs \<Longrightarrow> g f = Inl s \<Longrightarrow> \<exists>s'. forEach_field (map (\<lambda>f. (f, g f)) fs) schema = Inl s'"
  by (induction fs arbitrary: schema) (auto split: sum.splits)

lemma child_stops_parent:
  assumes "c \<in> set (children t)" and "convertType this c = Inl s"
  shows "\<exists>s'. convertType this t = Inl s'"
proof (cases t)
  case (ArrayType x)
  with assms show ?thesis by (simp add: convertType_Array)
next
  case (RecordType fs)
  with assms obtain f where f: "f \<in> set fs" "convertType this (field_type f) = Inl s"
    by auto
  from forEach_field_Inl[where g = "\<lambda>f. convertType this (field_type f)", OF f]
  obtain s' where
    "forEach_field (map (\<lambda>f. (f, convertType this (field_type f))) fs)
       \<lparr>schema_type = ''object'', properties = [], required = []\<rparr> = Inl s'"
    by blast
  with RecordType show ?thesis by (simp add: convertType_Record)
next
  case (UnwrappedUnionType ts)
  with assms(1) have "c \<in> set ts" by simp
  from sequence_Inl[where g = "convertType this", OF this assms(2)]
  obtain s' where "sequence (map (convertType this) ts) = Inl s'" by blast
  with UnwrappedUnionType show ?thesis by (simp add: convertType_UnwrappedUnion)
next
  case (WrappedUnionType ts)
  with assms(1) have "c \<in> set ts" by simp
  from sequence_Inl[where g = "convertType this", OF this assms(2)]
  obtain s' where "sequence (map (convertType this) ts) = Inl s'" by blast
  with WrappedUnionType show ?thesis by (simp add: convertType_WrappedUnion)
qed (use assms in auto)

lemma walks_to_stops:
  "walks_to t n \<Longrightarrow> convertType this n = Inl s \<Longrightarrow> \<exists>s'. convertType this t = Inl s'"
proof (induction arbitrary: s rule: walks_to.induct)
  case (here t)
  then show ?case by blast
next
  case (below c t n)
  then obtain s' where "convertType this c = Inl s'" by blast
  with below.hyps(1) show ?case by (rule child_stops_parent)
qed

lemma default_registry:
  "logicalTypeConvertors (Avro2JSONSchemaConverter None) = defaultLogicalTypes"
  by (simp add: Avro2JSONSchemaConverter_def setupLogicalTypes_def object_assign_def
      defaultLogicalTypes_def js_set_def Let_def)

lemma logical_name_examples:
  "logical_name ''logical:uuid'' = ''uuid''"
  "logical_name ''logical:decimal'' = ''decimal''"
  "logical_name ''logical:a:b'' = ''a''"
  by (simp_all add: logical_name_def property_key_def)

text \<open>A lookup in the registry: the last entry the caller gave for a name, and the
  built-in otherwise.\<close>

lemma map_of_fold_js_set:
  "key \<noteq> ''__proto__'' \<Longrightarrow>
   map_of (fold (\<lambda>(k, v). js_set k v) source target) key =
     (case map_of (rev source) key of Some f \<Rightarrow> Some f | None \<Rightarrow> map_of target key)"
proof (induction source arbitrary: target)
  case Nil
  then show ?case by simp
next
  case (Cons kv source)
  obtain k v where kv: "kv = (k, v)" by (cases kv)
  have step: "map_of (fold (\<lambda>(k, v). js_set k v) (kv # source) target) key =
      (case map_of (rev source) key of
         Some f \<Rightarrow> Some f
       | None \<Rightarrow> map_of (js_set k v target) key)"
    using Cons.IH[OF Cons.prems, of "js_set k v target"] by (simp add: kv)
  have stored: "map_of (js_set k v target) key = (if k = key then Some v else map_of target key)"
    using Cons.prems by (simp add: js_set_def update_conv')
  have last: "map_of (rev (kv # source)) key =
      (case map_of (rev source) key of
         Some f \<Rightarrow> Some f
       | None \<Rightarrow> if k = key then Some v else None)"
    by (simp add: kv map_of_append map_add_def split: option.splits)
  show ?case
    unfolding step stored last by (simp split: option.splits)
qed

lemma registry_lookup:
  assumes "key \<noteq> ''__proto__''"
  shows "map_of (logicalTypeConvertors (setupLogicalTypes (Some given))) key =
     (case map_of (rev given) key of
        Some f \<Rightarrow> Some f
      | None \<Rightarrow> map_of defaultLogicalTypes key)"
proof -
  have d: "fold (\<lambda>(k, v). js_set k v) defaultLogicalTypes [] = defaultLogicalTypes"
    by (simp add: defaultLogicalTypes_def js_set_def)
  show ?thesis
    by (simp add: setupLogicalTypes_def object_assign_def Let_def d
        map_of_fold_js_set[OF assms])
qed


text \<open>
  The loop of \<^verbatim>\<open>convertRecord\<close>: what it leaves in \<^verbatim>\<open>required\<close> and in
  \<^verbatim>\<open>properties\<close>, and that it returns when every field type converts.
\<close>

lemma forEach_field_result:
  assumes "forEach_field (map (\<lambda>f. (f, g f)) fs) s = Inr s'"
  shows "schema_type s' = schema_type s"
    and "required s' = required s @ map field_name (filter (\<lambda>f. defaultValue f = None) fs)"
    and "f \<in> set fs \<Longrightarrow> \<exists>c. g f = Inr c"
  using assms
proof (induction fs arbitrary: s)
  case Nil
  {
    case 1 then show ?case by simp
  next
    case 2 then show ?case by simp
  next
    case 3 then show ?case by simp
  }
next
  case (Cons a fs)
  {
    case 1
    then show ?case
      using Cons.IH(1) by (auto simp: field_body_eq split: sum.splits option.splits)
  next
    case 2
    then show ?case
      using Cons.IH(2) by (auto simp: field_body_eq split: sum.splits option.splits)
  next
    case 3
    then show ?case
      using Cons.IH(3) by (auto split: sum.splits)
  }
qed

lemma forEach_field_total:
  "(\<And>f. f \<in> set fs \<Longrightarrow> \<exists>c. g f = Inr c) \<Longrightarrow>
   \<exists>s'. forEach_field (map (\<lambda>f. (f, g f)) fs) s = Inr s'"
proof (induction fs arbitrary: s)
  case Nil
  then show ?case by simp
next
  case (Cons a fs)
  from Cons.prems obtain c where "g a = Inr c" by auto
  moreover from Cons.prems
  have "\<exists>s'. forEach_field (map (\<lambda>f. (f, g f)) fs) (field_body a c s) = Inr s'"
    by (intro Cons.IH) auto
  ultimately show ?case by simp
qed

lemma forEach_field_untouched:
  "forEach_field (map (\<lambda>f. (f, g f)) fs) s = Inr s' \<Longrightarrow> k \<notin> field_name ` set fs \<Longrightarrow>
   map_of (properties s') k = map_of (properties s) k"
proof (induction fs arbitrary: s)
  case Nil
  then show ?case by simp
next
  case (Cons a fs)
  from Cons.prems(1) obtain c where c: "g a = Inr c"
    and rest: "forEach_field (map (\<lambda>f. (f, g f)) fs) (field_body a c s) = Inr s'"
    by (auto split: sum.splits)
  from Cons.prems(2) have "k \<noteq> field_name a" and "k \<notin> field_name ` set fs" by auto
  from Cons.IH[OF rest this(2)] \<open>k \<noteq> field_name a\<close> show ?case
    by (simp add: field_body_eq js_set_def update_conv' split: option.splits)
qed

lemma forEach_field_stored:
  assumes "forEach_field (map (\<lambda>f. (f, g f)) fs) s = Inr s'"
    and "distinct (map field_name fs)"
    and "''__proto__'' \<notin> field_name ` set fs"
    and "f \<in> set fs"
  shows "\<exists>c. g f = Inr c \<and>
     map_of (properties s') (field_name f) =
       Some (JObj (case defaultValue f of Some d \<Rightarrow> js_set ''default'' d c | None \<Rightarrow> c))"
  using assms
proof (induction fs arbitrary: s)
  case Nil
  then show ?case by simp
next
  case (Cons a fs)
  from Cons.prems(1) obtain c where c: "g a = Inr c"
    and rest: "forEach_field (map (\<lambda>f. (f, g f)) fs) (field_body a c s) = Inr s'"
    by (auto split: sum.splits)
  show ?case
  proof (cases "f = a")
    case True
    from Cons.prems(2) have "field_name a \<notin> field_name ` set fs" by auto
    from forEach_field_untouched[OF rest this]
    have "map_of (properties s') (field_name a) =
        map_of (properties (field_body a c s)) (field_name a)" .
    moreover from Cons.prems(3) have "field_name a \<noteq> ''__proto__''" by auto
    ultimately show ?thesis
      using c True
      by (auto simp: field_body_eq js_set_def[of "field_name a"] update_conv'
          split: option.splits)
  next
    case False
    with Cons.prems have "f \<in> set fs" "distinct (map field_name fs)"
      "''__proto__'' \<notin> field_name ` set fs" by auto
    from Cons.IH[OF rest this(2) this(3) this(1)] show ?thesis .
  qed
qed


lemma convertType_Record_Inr:
  assumes "convertType this (RecordType fs) = Inr frag"
  obtains s' where
    "forEach_field (map (\<lambda>f. (f, convertType this (field_type f))) fs)
       \<lparr>schema_type = ''object'', properties = [], required = []\<rparr> = Inr s'"
    and "frag = schema_fragment s'"
  using assms by (auto simp: convertType_Record split: sum.splits)

lemma kind_fragment_no_default:
  assumes "convertType this t = Inr c" and "\<not> instanceof_LogicalType t"
  shows "map_of c ''default'' = None"
proof (cases t)
  case (ArrayType x)
  with assms show ?thesis by (auto simp: convertType_Array split: sum.splits)
next
  case (RecordType fs)
  with assms show ?thesis
    by (auto simp: convertType_Record schema_fragment_def split: sum.splits)
next
  case (UnwrappedUnionType ts)
  with assms show ?thesis by (auto simp: convertType_UnwrappedUnion split: sum.splits)
next
  case (WrappedUnionType ts)
  with assms show ?thesis by (auto simp: convertType_WrappedUnion split: sum.splits)
next
  case (FixedType n)
  with assms show ?thesis
    by (auto simp: convertType_primitive convertFixed_def convertBuffer_values)
qed (use assms in \<open>auto simp: convertType_primitive convertNull_def convertBoolean_def
    convertInt_def convertLong_def convertFloat_def convertDouble_def convertString_def
    convertBytes_def convertBuffer_values\<close>)

section \<open>Evaluation of the converters on a store\<close>

text \<open>
  The converters on a store compute what the converters above compute when every
  registered function returns a new object and has no effect (\<open>pure_registry_agrees\<close>).
\<close>

lemma effect_free_iff: "effect_free run \<longleftrightarrow> (\<exists>r. \<forall>s. run s = (r, s))"
proof
  assume ef: "effect_free run"
  obtain s0 :: 'a where True by simp
  from ef have "\<forall>s. run s = (fst (run s0), s)"
    by (auto simp: effect_free_def intro!: prod_eqI)
  then show "\<exists>r. \<forall>s. run s = (r, s)" ..
next
  assume "\<exists>r. \<forall>s. run s = (r, s)"
  then show "effect_free run" by (auto simp: effect_free_def)
qed

lemma field_body_st_Fresh:
  "field_body_st field (Fresh object) schema s = (field_body field object schema, s)"
  by (simp add: field_body_def field_body_st_def Let_def split: option.splits)

lemma convertType_st_primitive:
  "convertType_st this NullType s = (Inr (Fresh convertNull), s)"
  "convertType_st this BooleanType s = (Inr (Fresh convertBoolean), s)"
  "convertType_st this IntType s = (Inr (Fresh convertInt), s)"
  "convertType_st this LongType s = (Inr (Fresh convertLong), s)"
  "convertType_st this FloatType s = (Inr (Fresh convertFloat), s)"
  "convertType_st this DoubleType s = (Inr (Fresh convertDouble), s)"
  "convertType_st this StringType s = (Inr (Fresh convertString), s)"
  "convertType_st this BytesType s = (Inr (Fresh convertBytes), s)"
  "convertType_st this (FixedType n) s = (Inr (Fresh (convertFixed (FixedType n))), s)"
  "convertType_st this (EnumType ss) s =
     (Inr (Fresh [(''type'', JStr ''string''), (''enum'', JArr (map JStr ss))]), s)"
  "convertType_st this (MapType t) s = (Inl (Throws TypeError), s)"
  by (simp_all add: convertType_st.simps call_st.simps resolveConverter_kind fresh_def
      convertEnum_def)

lemma convertType_st_Array:
  "convertType_st this (ArrayType t) s =
     (case convertType_st this t s of
        (Inl x, s') \<Rightarrow> (Inl x, s')
      | (Inr converted, s') \<Rightarrow>
          (Inr (Fresh [(''type'', JStr ''array''), (''items'', as_value converted)]), s'))"
  by (simp add: convertType_st.simps[of this "ArrayType t"] call_st.simps resolveConverter_kind
      convertArray_st.simps)

lemma convertType_st_Record:
  "convertType_st this (RecordType fs) s =
     (case forEach_field_st this fs
             \<lparr>schema_type = ''object'', properties = [], required = []\<rparr> s of
        (Inl x, s') \<Rightarrow> (Inl x, s')
      | (Inr schema, s') \<Rightarrow> (Inr (Fresh (schema_fragment schema)), s'))"
  by (simp add: convertType_st.simps[of this "RecordType fs"] call_st.simps
      resolveConverter_kind convertRecord_st.simps)

lemma convertType_st_Union:
  "convertType_st this (UnwrappedUnionType ts) s =
     (case map_types_st this ts s of
        (Inl x, s') \<Rightarrow> (Inl x, s')
      | (Inr converted, s') \<Rightarrow>
          (Inr (Fresh [(''oneOf'', JArr (map as_value converted))]), s'))"
  "convertType_st this (WrappedUnionType ts) s =
     (case map_types_st this ts s of
        (Inl x, s') \<Rightarrow> (Inl x, s')
      | (Inr converted, s') \<Rightarrow>
          (Inr (Fresh [(''oneOf'', JArr (map as_value converted))]), s'))"
  by (simp_all add: convertType_st.simps[of this "UnwrappedUnionType ts"]
      convertType_st.simps[of this "WrappedUnionType ts"] call_st.simps resolveConverter_kind
      convertUnwrappedUnion_st.simps convertWrappedUnion_st.simps convertUnion_st.simps)

lemma convertType_st_Logical:
  "convertType_st this (LogicalType name u) s =
     (case js_get (logicalTypeConvertors this) (logical_name name) of
        Own f \<Rightarrow> f (LogicalType name u) s
      | Inherited_function k \<Rightarrow> (Inl (Outside k), s)
      | Inherited_object \<Rightarrow> (Inl (Throws TypeError), s)
      | Undefined \<Rightarrow> (Inl (Throws TypeError), s))"
  by (simp add: convertType_st.simps[of this "LogicalType name u"] call_st.simps
      resolveConverter_Logical split: property.splits)







text \<open>Registered functions that are effect-free and return new objects.\<close>

lemma forEach_field_st_effect_free:
  assumes "\<And>f. f \<in> set fs \<Longrightarrow>
      \<exists>r. (\<forall>s. convertType_st this (field_type f) s = (r, s)) \<and> (\<forall>a. r \<noteq> Inr (Shared a))"
  shows "effect_free (forEach_field_st this fs schema)"
  using assms
proof (induction fs arbitrary: schema)
  case Nil
  then show ?case by (simp add: effect_free_def)
next
  case (Cons field rest)
  from Cons.prems[of field] obtain r where
    r: "\<And>s. convertType_st this (field_type field) s = (r, s)"
    and new: "\<And>a. r \<noteq> Inr (Shared a)"
    by auto
  show ?case
  proof (cases r)
    case (Inl x)
    with r show ?thesis by (simp add: effect_free_def)
  next
    case (Inr converted)
    with new obtain object where object: "converted = Fresh object"
      by (cases converted) auto
    from Cons.prems
    have "effect_free (forEach_field_st this rest (field_body field object schema))"
      by (intro Cons.IH) simp
    with r Inr object show ?thesis
      by (simp add: effect_free_def field_body_st_Fresh)
  qed
qed

lemma map_types_st_effect_free:
  "(\<And>t. t \<in> set ts \<Longrightarrow> effect_free (convertType_st this t)) \<Longrightarrow>
   effect_free (map_types_st this ts)"
proof (induction ts)
  case Nil
  then show ?case by (simp add: effect_free_def)
next
  case (Cons type rest)
  from Cons.prems have "effect_free (convertType_st this type)" by simp
  then obtain r where r: "\<And>s. convertType_st this type s = (r, s)"
    by (auto simp: effect_free_iff)
  from Cons.prems have "effect_free (map_types_st this rest)"
    by (intro Cons.IH) simp
  then obtain rs where rs: "\<And>s. map_types_st this rest s = (rs, s)"
    by (auto simp: effect_free_iff)
  show ?case
    by (cases r; cases rs) (simp_all add: r rs effect_free_def)
qed

lemma convertType_st_effect_free_registry:
  assumes reg: "\<And>k f t. map_of (logicalTypeConvertors this) k = Some f \<Longrightarrow>
      effect_free (f t) \<and> returns_new_objects f"
  shows "\<exists>r. (\<forall>s. convertType_st this type s = (r, s)) \<and> (\<forall>a. r \<noteq> Inr (Shared a))"
proof (induction type
    rule: avro_type.induct[where ?P2.0 = "\<lambda>field.
      \<exists>r. (\<forall>s. convertType_st this (field_type field) s = (r, s)) \<and> (\<forall>a. r \<noteq> Inr (Shared a))"])
  case (ArrayType t)
  then obtain r where r: "\<And>s. convertType_st this t s = (r, s)" by auto
  show ?case
    by (cases r) (auto simp: convertType_st_Array r)
next
  case (RecordType fs)
  then have "effect_free (forEach_field_st this fs
      \<lparr>schema_type = ''object'', properties = [], required = []\<rparr>)"
    by (intro forEach_field_st_effect_free) simp
  then obtain r where r: "\<And>s. forEach_field_st this fs
      \<lparr>schema_type = ''object'', properties = [], required = []\<rparr> s = (r, s)"
    by (auto simp: effect_free_iff)
  show ?case
    by (cases r) (auto simp: convertType_st_Record r)
next
  case (UnwrappedUnionType ts)
  then have "effect_free (map_types_st this ts)"
    by (intro map_types_st_effect_free) (simp add: effect_free_iff, blast)
  then obtain r where r: "\<And>s. map_types_st this ts s = (r, s)"
    by (auto simp: effect_free_iff)
  show ?case
    by (cases r) (auto simp: convertType_st_Union r)
next
  case (WrappedUnionType ts)
  then have "effect_free (map_types_st this ts)"
    by (intro map_types_st_effect_free) (simp add: effect_free_iff, blast)
  then obtain r where r: "\<And>s. map_types_st this ts s = (r, s)"
    by (auto simp: effect_free_iff)
  show ?case
    by (cases r) (auto simp: convertType_st_Union r)
next
  case (LogicalType name u)
  show ?case
  proof (cases "map_of (logicalTypeConvertors this) (logical_name name)")
    case None
    then show ?thesis
      by (auto simp: convertType_st_Logical js_get_def)
  next
    case (Some f)
    from reg[OF Some] have ef: "effect_free (f (LogicalType name u))"
      and new: "returns_new_objects f" by auto
    from ef obtain r where r: "\<And>s. f (LogicalType name u) s = (r, s)"
      by (auto simp: effect_free_iff)
    from new r have "\<And>a. r \<noteq> Inr (Shared a)"
      by (metis fst_conv returns_new_objects_def)
    with Some r show ?thesis
      by (auto simp: convertType_st_Logical js_get_def)
  qed
next
  case (Field n t d)
  then show ?case by simp
qed (auto simp: convertType_st_primitive)

lemma convert_st_convertType_st:
  "forSchema schema \<lparr>noAnonymousTypes = True, fakeClasses = logicalTypeFakeClasses this\<rparr>
     = Inr type \<Longrightarrow>
   convert_st forSchema this schema s = convertType_st this type s"
  by (simp add: convert_st_def convertType_st.simps)

lemma js_get_pure_function:
  "js_get (map (\<lambda>(name, f). (name, pure_function f)) registry) k =
     (case js_get registry k of
        Own f \<Rightarrow> Own (pure_function f)
      | Inherited_function n \<Rightarrow> Inherited_function n
      | Inherited_object \<Rightarrow> Inherited_object
      | Undefined \<Rightarrow> Undefined)"
  by (simp add: js_get_def map_of_map split: option.splits)

lemma forEach_field_st_agrees:
  "(\<And>f s. f \<in> set fs \<Longrightarrow>
      convertType_st this_st (field_type f) s = (fresh (convertType this (field_type f)), s)) \<Longrightarrow>
   forEach_field_st this_st fs schema s =
     (forEach_field (map (\<lambda>f. (f, convertType this (field_type f))) fs) schema, s)"
  by (induction fs arbitrary: schema)
    (auto simp: fresh_def field_body_st_Fresh split: sum.splits)

lemma map_types_st_agrees:
  "(\<And>t s. t \<in> set ts \<Longrightarrow> convertType_st this_st t s = (fresh (convertType this t), s)) \<Longrightarrow>
   map_types_st this_st ts s =
     (case sequence (map (convertType this) ts) of
        Inl x \<Rightarrow> Inl x
      | Inr objects \<Rightarrow> Inr (map Fresh objects), s)"
  by (induction ts) (auto simp: fresh_def split: sum.splits)

lemma pure_registry_agrees:
  assumes "logicalTypeConvertors this_st =
      map (\<lambda>(name, f). (name, pure_function f)) (logicalTypeConvertors this)"
  shows "convertType_st this_st type s = (fresh (convertType this type), s)"
proof (induction type arbitrary: s
    rule: avro_type.induct[where ?P2.0 =
      "\<lambda>field. \<forall>s. convertType_st this_st (field_type field) s =
         (fresh (convertType this (field_type field)), s)"])
  case (ArrayType t)
  then show ?case
    by (simp add: convertType_st_Array convertType_Array fresh_def split: sum.splits)
next
  case (RecordType fs)
  then have "forEach_field_st this_st fs
      \<lparr>schema_type = ''object'', properties = [], required = []\<rparr> s =
     (forEach_field (map (\<lambda>f. (f, convertType this (field_type f))) fs)
        \<lparr>schema_type = ''object'', properties = [], required = []\<rparr>, s)"
    by (intro forEach_field_st_agrees) simp
  then show ?case
    by (simp add: convertType_st_Record convertType_Record fresh_def split: sum.splits)
next
  case (UnwrappedUnionType ts)
  then have "map_types_st this_st ts s =
     (case sequence (map (convertType this) ts) of
        Inl x \<Rightarrow> Inl x
      | Inr objects \<Rightarrow> Inr (map Fresh objects), s)"
    by (intro map_types_st_agrees) simp
  then show ?case
    by (simp add: convertType_st_Union convertType_UnwrappedUnion fresh_def comp_def
        split: sum.splits)
next
  case (WrappedUnionType ts)
  then have "map_types_st this_st ts s =
     (case sequence (map (convertType this) ts) of
        Inl x \<Rightarrow> Inl x
      | Inr objects \<Rightarrow> Inr (map Fresh objects), s)"
    by (intro map_types_st_agrees) simp
  then show ?case
    by (simp add: convertType_st_Union convertType_WrappedUnion fresh_def comp_def
        split: sum.splits)
next
  case (LogicalType name u)
  show ?case
    by (simp add: convertType_st_Logical convertType_Logical assms js_get_pure_function
        pure_function_def fresh_def split: property.splits)
qed (simp_all add: convertType_st_primitive convertType_primitive fresh_def)

lemma setupLogicalTypes_st_None:
  "logicalTypeConvertors (setupLogicalTypes_st None) =
     [(''decimal'', pure_function decimal), (''date'', pure_function date),
      (''timestamp-millis'', pure_function timestampMillis)]"
  by (simp add: setupLogicalTypes_st_def object_assign_def defaultLogicalTypes_def js_set_def
      Let_def)

lemma setupLogicalTypes_st_one:
  "name \<notin> {''__proto__'', ''decimal'', ''date'', ''timestamp-millis''} \<Longrightarrow>
   logicalTypeConvertors (setupLogicalTypes_st (Some [(name, f)])) =
     [(''decimal'', pure_function decimal), (''date'', pure_function date),
      (''timestamp-millis'', pure_function timestampMillis), (name, f)]"
  by (auto simp: setupLogicalTypes_st_def object_assign_def defaultLogicalTypes_def js_set_def
      Let_def)

lemma pure_function_effect_free: "effect_free (pure_function f type)"
  by (simp add: effect_free_def pure_function_def)

lemma pure_function_returns_new_objects: "returns_new_objects (pure_function f)"
  by (simp add: returns_new_objects_def pure_function_def fresh_def split: sum.splits)

lemma list_all_registry:
  assumes "list_all (\<lambda>(name, g). (\<forall>type. effect_free (g type)) \<and> returns_new_objects g) registry"
    and "map_of registry k = Some f"
  shows "effect_free (f t) \<and> returns_new_objects f"
proof -
  from assms(2) have "(k, f) \<in> set registry" by (rule map_of_SomeD)
  with assms(1) show ?thesis by (auto simp: list_all_iff)
qed

lemma convertType_st_new_objects:
  assumes "list_all (\<lambda>(name, g). (\<forall>type. effect_free (g type)) \<and> returns_new_objects g)
      (logicalTypeConvertors this)"
  shows "\<exists>r. (\<forall>s. convertType_st this type s = (r, s)) \<and> (\<forall>a. r \<noteq> Inr (Shared a))"
  by (rule convertType_st_effect_free_registry) (rule list_all_registry[OF assms])

lemma convert_st_new_objects:
  assumes "list_all (\<lambda>(name, g). (\<forall>type. effect_free (g type)) \<and> returns_new_objects g)
      (logicalTypeConvertors this)"
  shows "\<exists>r. (\<forall>s. convert_st forSchema this schema s = (r, s)) \<and> (\<forall>a. r \<noteq> Inr (Shared a))"
proof (cases "forSchema schema
    \<lparr>noAnonymousTypes = True, fakeClasses = logicalTypeFakeClasses this\<rparr>")
  case (Inl e)
  then show ?thesis by (simp add: convert_st_def)
next
  case (Inr type)
  then have "\<And>s. convert_st forSchema this schema s = convertType_st this type s"
    by (rule convert_st_convertType_st)
  with convertType_st_new_objects[OF assms, of type] show ?thesis
    by simp
qed

text \<open>
  One object returned for the type of two fields. The function registered under
  \<^verbatim>\<open>uuid\<close> returns the object at address 0 at every call. The default of field \<open>a\<close> is
  written into that object, which both properties hold: field \<open>b\<close>, which has no
  default, shows it as well, in either order of the fields.
\<close>

lemma shared_object_default_example:
  "fst (convertType_st
     (setupLogicalTypes_st (Some [(''uuid'', \<lambda>type store. (Inr (Shared 0), store))]))
     (RecordType [Field ''a'' (LogicalType ''logical:uuid'' StringType) (Some (JStr ''x'')),
                  Field ''b'' (LogicalType ''logical:uuid'' StringType) None])
     (\<lambda>a. [(''type'', JStr ''string'')]))
   = Inr (Fresh [(''type'', JStr ''object''),
                 (''properties'', JObj [(''a'', JRef 0), (''b'', JRef 0)]),
                 (''required'', JArr [JStr ''b''])])
   \<and> snd (convertType_st
     (setupLogicalTypes_st (Some [(''uuid'', \<lambda>type store. (Inr (Shared 0), store))]))
     (RecordType [Field ''a'' (LogicalType ''logical:uuid'' StringType) (Some (JStr ''x'')),
                  Field ''b'' (LogicalType ''logical:uuid'' StringType) None])
     (\<lambda>a. [(''type'', JStr ''string'')])) 0
   = [(''type'', JStr ''string''), (''default'', JStr ''x'')]
   \<and> fst (convertType_st
     (setupLogicalTypes_st (Some [(''uuid'', \<lambda>type store. (Inr (Shared 0), store))]))
     (RecordType [Field ''b'' (LogicalType ''logical:uuid'' StringType) None,
                  Field ''a'' (LogicalType ''logical:uuid'' StringType) (Some (JStr ''x''))])
     (\<lambda>a. [(''type'', JStr ''string'')]))
   = Inr (Fresh [(''type'', JStr ''object''),
                 (''properties'', JObj [(''b'', JRef 0), (''a'', JRef 0)]),
                 (''required'', JArr [JStr ''b''])])
   \<and> snd (convertType_st
     (setupLogicalTypes_st (Some [(''uuid'', \<lambda>type store. (Inr (Shared 0), store))]))
     (RecordType [Field ''b'' (LogicalType ''logical:uuid'' StringType) None,
                  Field ''a'' (LogicalType ''logical:uuid'' StringType) (Some (JStr ''x''))])
     (\<lambda>a. [(''type'', JStr ''string'')])) 0
   = [(''type'', JStr ''string''), (''default'', JStr ''x'')]"
proof -
  have "logical_name ''logical:uuid'' = ''uuid''"
    by (simp add: logical_name_def property_key_def)
  then show ?thesis
    by (simp add: convertType_st_Record convertType_st_Logical setupLogicalTypes_st_one
        js_get_def field_body_st_def js_set_def schema_fragment_def Let_def)
qed

section \<open>Integer bounds\<close>

text \<open>
  C1. \<^verbatim>\<open>convertInt\<close> returns the bounds \<open>- 2 ^ 31\<close> and \<open>2 ^ 31 - 1\<close> exactly.
  \<^verbatim>\<open>convertLong\<close> returns the minimum \<open>- 2 ^ 63\<close> exactly, but its maximum, written
  \<^verbatim>\<open>2 ** 63 - 1\<close>, is computed in double arithmetic, where the subtraction rounds back
  to \<open>2 ^ 63\<close>: the fragment carries 9223372036854775808, which is not \<open>2 ^ 63 - 1\<close>.
\<close>

theorem convertLong_maximum_rounds_to_2_63:
  "convertType this IntType =
     Inr [(''type'', JStr ''integer''), (''minimum'', JNum (- 2147483648)),
          (''maximum'', JNum 2147483647)]
   \<and> convertType this LongType =
     Inr [(''type'', JStr ''integer''), (''minimum'', JNum (- 9223372036854775808)),
          (''maximum'', JNum 9223372036854775808)]
   \<and> (9223372036854775808 :: real) \<noteq> 2 ^ 63 - 1"
  by (simp add: convertType_primitive convertInt_def convertLong_def js_neg_def
      js_pow_2_63 js_pow_2_31 js_sub_2_63_1 js_sub_2_31_1)

section \<open>Byte buffers\<close>

text \<open>
  C6. A Bytes node converts to exactly the string fragment with the pattern
  \<^verbatim>\<open>^[\u0000-\u00ff]*$\<close> (the two escapes are the characters with codes 0 and 255) and
  no length bound; a Fixed node of size \<open>S\<close> converts to the same two properties followed
  by \<^verbatim>\<open>maxLength\<close> and \<^verbatim>\<open>minLength\<close>, both equal to \<open>S\<close>.
\<close>

theorem convertBytes_convertFixed:
  "convertType this BytesType =
     Inr [(''type'', JStr ''string''),
          (''pattern'', JStr [CHR ''^'', CHR ''['', CHR 0x00, CHR ''-'', CHR 0xFF,
                              CHR '']'', CHR ''*'', CHR ''$''])]
   \<and> convertType this (FixedType S) =
     Inr [(''type'', JStr ''string''),
          (''pattern'', JStr [CHR ''^'', CHR ''['', CHR 0x00, CHR ''-'', CHR 0xFF,
                              CHR '']'', CHR ''*'', CHR ''$'']),
          (''maxLength'', JNum (real S)), (''minLength'', JNum (real S))]"
  by (simp add: convertType_primitive convertBytes_def convertFixed_def convertBuffer_values
      buffer_pattern_def)

section \<open>Failures of the dispatch\<close>

text \<open>
  C2, as the claim states it, fails: the program has no \<^verbatim>\<open>UnknownLogicalTypeError\<close>.
  With the built-in registry, a logical node named \<^verbatim>\<open>uuid\<close> makes
  \<^verbatim>\<open>resolveConverter\<close> take \<^verbatim>\<open>.bind\<close> of \<^verbatim>\<open>undefined\<close>, which throws a
  \<^verbatim>\<open>TypeError\<close>.
\<close>

theorem unknown_logical_error_counterexample:
  "convertType (Avro2JSONSchemaConverter None) (LogicalType ''logical:uuid'' StringType)
     = Inl (Throws TypeError)
   \<and> convertType (Avro2JSONSchemaConverter None) (LogicalType ''logical:uuid'' StringType)
     \<noteq> Inl (Throws (JSError ''UnknownLogicalTypeError''))"
  by (simp add: convertType_Logical default_registry logical_name_examples js_get_def
      defaultLogicalTypes_def object_prototype_functions_def)

text \<open>
  C2, amended. For every logical node whose logical name (what \<^verbatim>\<open>resolveConverter\<close>
  extracts from the \<^verbatim>\<open>typeName\<close>) is not an own entry of the registry and is not the
  name of a function that the registry object inherits from \<^verbatim>\<open>Object.prototype\<close>,
  \<^verbatim>\<open>resolveConverter\<close> throws a \<^verbatim>\<open>TypeError\<close>, so does the conversion of the node, and
  every conversion that walks to the node returns no fragment.
\<close>

theorem unregistered_logical_TypeError:
  assumes "map_of (logicalTypeConvertors this) (logical_name name) = None"
    and "logical_name name \<notin> set object_prototype_functions"
  shows "resolveConverter this (LogicalType name u) = Inl TypeError
    \<and> convertType this (LogicalType name u) = Inl (Throws TypeError)
    \<and> (walks_to t (LogicalType name u) \<longrightarrow> (\<exists>s. convertType this t = Inl s))"
proof -
  from assms have get: "js_get (logicalTypeConvertors this) (logical_name name) = Undefined
      \<or> js_get (logicalTypeConvertors this) (logical_name name) = Inherited_object"
    by (simp add: js_get_def)
  then have r: "resolveConverter this (LogicalType name u) = Inl TypeError"
    by (auto simp: resolveConverter_Logical)
  from get have c: "convertType this (LogicalType name u) = Inl (Throws TypeError)"
    by (auto simp: convertType_Logical)
  from c have "walks_to t (LogicalType name u) \<longrightarrow> (\<exists>s. convertType this t = Inl s)"
    using walks_to_stops by blast
  with r c show ?thesis by blast
qed

theorem unregistered_logical_TypeError_witness:
  "map_of (logicalTypeConvertors (Avro2JSONSchemaConverter None)) (logical_name ''logical:uuid'') = None
   \<and> logical_name ''logical:uuid'' \<notin> set object_prototype_functions
   \<and> walks_to (ArrayType (LogicalType ''logical:uuid'' StringType)) (LogicalType ''logical:uuid'' StringType)
   \<and> resolveConverter (Avro2JSONSchemaConverter None) (LogicalType ''logical:uuid'' StringType) = Inl TypeError
   \<and> convertType (Avro2JSONSchemaConverter None) (LogicalType ''logical:uuid'' StringType) = Inl (Throws TypeError)
   \<and> (\<exists>s. convertType (Avro2JSONSchemaConverter None) (ArrayType (LogicalType ''logical:uuid'' StringType)) = Inl s)"
proof -
  have a: "map_of (logicalTypeConvertors (Avro2JSONSchemaConverter None)) (logical_name ''logical:uuid'') = None"
    by (simp add: default_registry logical_name_examples defaultLogicalTypes_def)
  have b: "logical_name ''logical:uuid'' \<notin> set object_prototype_functions"
    by (simp add: logical_name_examples object_prototype_functions_def)
  have w: "walks_to (ArrayType (LogicalType ''logical:uuid'' StringType)) (LogicalType ''logical:uuid'' StringType)"
    by (rule walks_to.below[OF _ walks_to.here]) simp
  from unregistered_logical_TypeError[OF a b, of StringType "ArrayType (LogicalType ''logical:uuid'' StringType)"] a b w
  show ?thesis by blast
qed

text \<open>
  C3, as the claim states it, fails: the program has no \<^verbatim>\<open>UnsupportedTypeError\<close>. The
  class has no method \<^verbatim>\<open>convertMap\<close>, and taking \<^verbatim>\<open>.bind\<close> of the missing method
  throws a \<^verbatim>\<open>TypeError\<close>.
\<close>

theorem unsupported_type_error_counterexample:
  "convertType (Avro2JSONSchemaConverter None) (MapType StringType) = Inl (Throws TypeError)
   \<and> convertType (Avro2JSONSchemaConverter None) (MapType StringType)
     \<noteq> Inl (Throws (JSError ''UnsupportedTypeError''))"
  by (simp add: convertType_primitive)

text \<open>
  C3, amended. For a Map node, \<^verbatim>\<open>resolveConverter\<close> throws a \<^verbatim>\<open>TypeError\<close>, so does the
  conversion of the node, and every conversion that walks to the node returns no
  fragment. Among the nodes that are not logical types, the Map nodes are the only ones
  on which \<^verbatim>\<open>resolveConverter\<close> throws: every other class has its converter method.
\<close>

theorem map_dispatch_TypeError:
  "resolveConverter this (MapType v) = Inl TypeError
   \<and> convertType this (MapType v) = Inl (Throws TypeError)
   \<and> (walks_to t (MapType v) \<longrightarrow> (\<exists>s. convertType this t = Inl s))
   \<and> (\<not> instanceof_LogicalType n \<longrightarrow>
        ((\<exists>e. resolveConverter this n = Inl e) \<longleftrightarrow> (\<exists>v. n = MapType v)))"
proof -
  have c: "convertType this (MapType v) = Inl (Throws TypeError)"
    by (simp add: convertType_primitive)
  then have "walks_to t (MapType v) \<longrightarrow> (\<exists>s. convertType this t = Inl s)"
    using walks_to_stops by blast
  moreover have "\<not> instanceof_LogicalType n \<longrightarrow>
        ((\<exists>e. resolveConverter this n = Inl e) \<longleftrightarrow> (\<exists>v. n = MapType v))"
    by (cases n) (simp_all add: resolveConverter_kind)
  ultimately show ?thesis using c by (simp add: resolveConverter_kind)
qed

theorem map_dispatch_TypeError_witness:
  "walks_to (UnwrappedUnionType [NullType, MapType StringType]) (MapType StringType)
   \<and> \<not> instanceof_LogicalType (MapType StringType)
   \<and> \<not> instanceof_LogicalType IntType
   \<and> resolveConverter (Avro2JSONSchemaConverter None) (MapType StringType) = Inl TypeError
   \<and> convertType (Avro2JSONSchemaConverter None) (MapType StringType) = Inl (Throws TypeError)
   \<and> (\<exists>s. convertType (Avro2JSONSchemaConverter None)
              (UnwrappedUnionType [NullType, MapType StringType]) = Inl s)
   \<and> (\<forall>e. resolveConverter (Avro2JSONSchemaConverter None) IntType \<noteq> Inl e)"
proof -
  have w: "walks_to (UnwrappedUnionType [NullType, MapType StringType]) (MapType StringType)"
    by (rule walks_to.below[OF _ walks_to.here]) simp
  have n: "\<not> instanceof_LogicalType IntType" "\<not> instanceof_LogicalType (MapType StringType)"
    by simp_all
  from map_dispatch_TypeError[of "Avro2JSONSchemaConverter None" StringType
      "UnwrappedUnionType [NullType, MapType StringType]" IntType] w n
  show ?thesis by auto
qed

section \<open>The registry of logical types\<close>

text \<open>
  C7. The constructor assembles the registry once, by \<^verbatim>\<open>setupLogicalTypes\<close>: with no
  options it is the three built-ins; with a mapping supplied it is the built-ins overlaid
  with the mapping, so that a lookup finds the caller's function where the caller gave
  one for the name, and the built-in otherwise. Consequently a logical node whose name
  the caller registered converts to the result of the caller's function, also where the
  name is a built-in's. (A key \<^verbatim>\<open>__proto__\<close> of the mapping is assigned to the accessor
  of \<^verbatim>\<open>Object.prototype\<close> and becomes no entry of the registry.)
\<close>

theorem supplied_logical_type_overrides:
  "logicalTypeConvertors (Avro2JSONSchemaConverter None) =
     [(''decimal'', decimal), (''date'', date), (''timestamp-millis'', timestampMillis)]
   \<and> logicalTypeConvertors (Avro2JSONSchemaConverter (Some \<lparr>logicalTypes = Some given\<rparr>)) =
       object_assign [] [defaultLogicalTypes, given]
   \<and> (key \<noteq> ''__proto__'' \<longrightarrow>
        map_of (logicalTypeConvertors
                 (Avro2JSONSchemaConverter (Some \<lparr>logicalTypes = Some given\<rparr>))) key =
          (case map_of (rev given) key of
             Some f \<Rightarrow> Some f
           | None \<Rightarrow> map_of defaultLogicalTypes key))
   \<and> (key \<noteq> ''__proto__'' \<and> map_of (rev given) key = Some f \<and> logical_name name = key \<longrightarrow>
        convertType (Avro2JSONSchemaConverter (Some \<lparr>logicalTypes = Some given\<rparr>))
          (LogicalType name u) = f (LogicalType name u))"
proof -
  let ?c = "Avro2JSONSchemaConverter (Some \<lparr>logicalTypes = Some given\<rparr>)"
  have this_eq: "?c = setupLogicalTypes (Some given)"
    by (simp add: Avro2JSONSchemaConverter_def)
  have lookup: "key \<noteq> ''__proto__'' \<Longrightarrow>
      map_of (logicalTypeConvertors ?c) key =
        (case map_of (rev given) key of
           Some f \<Rightarrow> Some f
         | None \<Rightarrow> map_of defaultLogicalTypes key)"
    unfolding this_eq by (rule registry_lookup)
  have "convertType ?c (LogicalType name u) = f (LogicalType name u)"
    if "key \<noteq> ''__proto__''" "map_of (rev given) key = Some f" "logical_name name = key"
  proof -
    from that lookup have "map_of (logicalTypeConvertors ?c) (logical_name name) = Some f"
      by simp
    then show ?thesis
      by (simp add: convertType_Logical js_get_def)
  qed
  moreover have "logicalTypeConvertors ?c = object_assign [] [defaultLogicalTypes, given]"
    by (simp add: this_eq setupLogicalTypes_def Let_def)
  moreover have "logicalTypeConvertors (Avro2JSONSchemaConverter None) =
     [(''decimal'', decimal), (''date'', date), (''timestamp-millis'', timestampMillis)]"
    by (simp add: default_registry defaultLogicalTypes_def)
  ultimately show ?thesis using lookup by blast
qed

theorem supplied_logical_type_overrides_witness:
  "''decimal'' \<noteq> ''__proto__''
   \<and> map_of (rev [(''decimal'', \<lambda>type. Inr [(''type'', JStr ''string'')])]) ''decimal''
       = Some (\<lambda>type. Inr [(''type'', JStr ''string'')])
   \<and> logical_name ''logical:decimal'' = ''decimal''
   \<and> convertType
        (Avro2JSONSchemaConverter
          (Some \<lparr>logicalTypes = Some [(''decimal'', \<lambda>type. Inr [(''type'', JStr ''string'')])]\<rparr>))
        (LogicalType ''logical:decimal'' BytesType) = Inr [(''type'', JStr ''string'')]
   \<and> decimal (LogicalType ''logical:decimal'' BytesType) = Inr [(''type'', JStr ''number'')]
   \<and> convertType (Avro2JSONSchemaConverter None) (LogicalType ''logical:decimal'' BytesType)
       = Inr [(''type'', JStr ''number'')]"
proof -
  have a: "''decimal'' \<noteq> ''__proto__''" by simp
  have b: "map_of (rev [(''decimal'', \<lambda>type. Inr [(''type'', JStr ''string'')])]) ''decimal''
       = Some ((\<lambda>type. Inr [(''type'', JStr ''string'')]) :: logical_converter)" by simp
  have c: "logical_name ''logical:decimal'' = ''decimal''"
    by (simp add: logical_name_examples)
  have d: "convertType (Avro2JSONSchemaConverter None) (LogicalType ''logical:decimal'' BytesType)
       = Inr [(''type'', JStr ''number'')]"
    by (simp add: convertType_Logical default_registry c js_get_def defaultLogicalTypes_def
        decimal_def)
  from supplied_logical_type_overrides[of "[(''decimal'', \<lambda>type. Inr [(''type'', JStr ''string'')])]"
      "''decimal''" "\<lambda>type. Inr [(''type'', JStr ''string'')]" "''logical:decimal''" BytesType]
    a b c d
  show ?thesis by (simp add: decimal_def)
qed

text \<open>
  C8. The registry key of a logical node is \<^verbatim>\<open>typeName.split(':')[1]\<close>: the text between
  the first and the second colon, not the whole remainder. A function registered under
  the name \<^verbatim>\<open>a:b\<close> is in the registry and has its marker class for the type
  resolution, the node's \<^verbatim>\<open>typeName\<close> is \<^verbatim>\<open>logical:a:b\<close>, the lookup is made under
  \<^verbatim>\<open>a\<close>, and the conversion throws.
\<close>

theorem logical_name_stops_at_second_colon:
  "map_of (logicalTypeConvertors
            (Avro2JSONSchemaConverter
              (Some \<lparr>logicalTypes = Some [(''a:b'', \<lambda>type. Inr [(''type'', JStr ''string'')])]\<rparr>)))
      ''a:b'' = Some (\<lambda>type. Inr [(''type'', JStr ''string'')])
   \<and> map fst (logicalTypeFakeClasses
            (Avro2JSONSchemaConverter
              (Some \<lparr>logicalTypes = Some [(''a:b'', \<lambda>type. Inr [(''type'', JStr ''string'')])]\<rparr>)))
      = [''decimal'', ''date'', ''timestamp-millis'', ''a:b'']
   \<and> js_split CHR '':'' ''logical:a:b'' = [''logical'', ''a'', ''b'']
   \<and> logical_name ''logical:a:b'' = ''a''
   \<and> convertType
        (Avro2JSONSchemaConverter
          (Some \<lparr>logicalTypes = Some [(''a:b'', \<lambda>type. Inr [(''type'', JStr ''string'')])]\<rparr>))
        (LogicalType ''logical:a:b'' StringType) = Inl (Throws TypeError)"
proof -
  let ?f = "(\<lambda>type. Inr [(''type'', JStr ''string'')]) :: logical_converter"
  let ?c = "Avro2JSONSchemaConverter (Some \<lparr>logicalTypes = Some [(''a:b'', ?f)]\<rparr>)"
  have registry: "logicalTypeConvertors ?c =
      [(''decimal'', decimal), (''date'', date), (''timestamp-millis'', timestampMillis),
       (''a:b'', ?f)]"
    by (simp add: Avro2JSONSchemaConverter_def setupLogicalTypes_def object_assign_def
        defaultLogicalTypes_def js_set_def Let_def)
  have classes: "map fst (logicalTypeFakeClasses ?c) =
      [''decimal'', ''date'', ''timestamp-millis'', ''a:b'']"
    by (simp add: Avro2JSONSchemaConverter_def setupLogicalTypes_def object_assign_def
        defaultLogicalTypes_def js_set_def Let_def)
  have key: "logical_name ''logical:a:b'' = ''a''"
    by (simp add: logical_name_examples)
  have "convertType ?c (LogicalType ''logical:a:b'' StringType) = Inl (Throws TypeError)"
    by (simp add: convertType_Logical key registry js_get_def object_prototype_functions_def)
  with registry classes key show ?thesis by simp
qed

section \<open>Unions\<close>



section \<open>Records\<close>

text \<open>
  C9. A record with no field converts to exactly
  \<^verbatim>\<open>{type: "object", properties: {}, required: []}\<close>. Every fragment that the conversion
  of a record returns has the three keys \<^verbatim>\<open>type\<close>, \<^verbatim>\<open>properties\<close> and \<^verbatim>\<open>required\<close>, in
  this order, \<^verbatim>\<open>required\<close> being the array of the names of the fields that have no
  default, in declaration order: the empty array when every field has a default. And the
  conversion of a record does return a fragment whenever the types of its fields convert.
\<close>

theorem record_fragment_has_three_keys:
  "convertType this (RecordType []) =
     Inr [(''type'', JStr ''object''), (''properties'', JObj []), (''required'', JArr [])]
   \<and> (convertType this (RecordType fs) = Inr frag \<longrightarrow>
        (\<exists>props. frag =
           [(''type'', JStr ''object''), (''properties'', JObj props),
            (''required'',
             JArr (map JStr (map field_name (filter (\<lambda>f. defaultValue f = None) fs))))]))
   \<and> (convertType this (RecordType fs) = Inr frag \<and> list_all (\<lambda>f. defaultValue f \<noteq> None) fs \<longrightarrow>
        map_of frag ''required'' = Some (JArr []))
   \<and> (list_all (\<lambda>f. \<exists>c. convertType this (field_type f) = Inr c) fs \<longrightarrow>
        (\<exists>frag. convertType this (RecordType fs) = Inr frag))"
proof -
  have empty: "convertType this (RecordType []) =
     Inr [(''type'', JStr ''object''), (''properties'', JObj []), (''required'', JArr [])]"
    by (simp add: convertType_Record schema_fragment_def)
  have shape: "\<exists>props. frag =
           [(''type'', JStr ''object''), (''properties'', JObj props),
            (''required'',
             JArr (map JStr (map field_name (filter (\<lambda>f. defaultValue f = None) fs))))]"
    if "convertType this (RecordType fs) = Inr frag"
  proof -
    from that obtain s' where
      run: "forEach_field (map (\<lambda>f. (f, convertType this (field_type f))) fs)
         \<lparr>schema_type = ''object'', properties = [], required = []\<rparr> = Inr s'"
      and frag: "frag = schema_fragment s'"
      by (rule convertType_Record_Inr)
    from forEach_field_result(1,2)[OF run] frag show ?thesis
      by (simp add: schema_fragment_def)
  qed
  have all_defaults: "map_of frag ''required'' = Some (JArr [])"
    if "convertType this (RecordType fs) = Inr frag" "list_all (\<lambda>f. defaultValue f \<noteq> None) fs"
  proof -
    from that(2) have "filter (\<lambda>f. defaultValue f = None) fs = []"
      by (auto simp: list_all_iff filter_empty_conv)
    with shape[OF that(1)] show ?thesis by auto
  qed
  have total: "\<exists>frag. convertType this (RecordType fs) = Inr frag"
    if "list_all (\<lambda>f. \<exists>c. convertType this (field_type f) = Inr c) fs"
  proof -
    from that have "\<And>f. f \<in> set fs \<Longrightarrow> \<exists>c. convertType this (field_type f) = Inr c"
      by (simp add: list_all_iff)
    from forEach_field_total[where g = "\<lambda>f. convertType this (field_type f)", OF this]
    obtain s' where
      "forEach_field (map (\<lambda>f. (f, convertType this (field_type f))) fs)
         \<lparr>schema_type = ''object'', properties = [], required = []\<rparr> = Inr s'"
      by blast
    then show ?thesis by (simp add: convertType_Record)
  qed
  from empty shape all_defaults total show ?thesis by blast
qed

theorem record_fragment_has_three_keys_witness:
  "list_all (\<lambda>f. defaultValue f \<noteq> None) [Field ''x'' IntType (Some (JNum 0))]
   \<and> list_all (\<lambda>f. \<exists>c. convertType (Avro2JSONSchemaConverter None) (field_type f) = Inr c)
        [Field ''x'' IntType (Some (JNum 0))]
   \<and> convertType (Avro2JSONSchemaConverter None) (RecordType [Field ''x'' IntType (Some (JNum 0))]) =
       Inr [(''type'', JStr ''object''),
            (''properties'',
             JObj [(''x'', JObj [(''type'', JStr ''integer''), (''minimum'', JNum (- 2147483648)),
                                 (''maximum'', JNum 2147483647), (''default'', JNum 0)])]),
            (''required'', JArr [])]
   \<and> map_of [(''type'', JStr ''object''),
            (''properties'',
             JObj [(''x'', JObj [(''type'', JStr ''integer''), (''minimum'', JNum (- 2147483648)),
                                 (''maximum'', JNum 2147483647), (''default'', JNum 0)])]),
            (''required'', JArr [])] ''required'' = Some (JArr [])"
proof -
  let ?c = "Avro2JSONSchemaConverter None"
  let ?fs = "[Field ''x'' IntType (Some (JNum 0))]"
  let ?frag = "[(''type'', JStr ''object''),
            (''properties'',
             JObj [(''x'', JObj [(''type'', JStr ''integer''), (''minimum'', JNum (- 2147483648)),
                                 (''maximum'', JNum 2147483647), (''default'', JNum 0)])]),
            (''required'', JArr [])]"
  have int: "convertInt = [(''type'', JStr ''integer''), (''minimum'', JNum (- 2147483648)),
                          (''maximum'', JNum 2147483647)]"
    by (simp add: convertInt_def js_neg_def js_pow_2_31 js_sub_2_31_1)
  have d: "list_all (\<lambda>f. defaultValue f \<noteq> None) ?fs" by simp
  have t: "list_all (\<lambda>f. \<exists>c. convertType ?c (field_type f) = Inr c) ?fs"
    by (simp add: convertType_primitive)
  have r: "convertType ?c (RecordType ?fs) = Inr ?frag"
    by (simp add: convertType_Record convertType_primitive int field_body_eq js_set_def
        schema_fragment_def)
  from record_fragment_has_three_keys[of ?c ?fs ?frag] d t r
  show ?thesis by simp
qed




section \<open>Determinism and effects\<close>

text \<open>
  C10, as the claim states it, fails for a registry that holds a function without any
  effect of its own: the function registered here under \<^verbatim>\<open>uuid\<close> returns, at every call
  and whatever the store, the one object at address 0, and leaves the store as it is.
  A node of that logical type converts to that object, which reads
  \<^verbatim>\<open>{type: "string"}\<close>. The conversion of a record with a field of that type and the
  default \<^verbatim>\<open>"x"\<close> writes the default into the object: the run changes an object that
  existed before it. After it, the conversion of the same node as before returns the
  object reading \<^verbatim>\<open>{type: "string", default: "x"}\<close>.
\<close>

theorem shared_object_counterexample:
  "(\<forall>type. effect_free ((\<lambda>type store. (Inr (Shared 0) :: stop + returned, store :: store)) type))
   \<and> convertType_st
        (setupLogicalTypes_st (Some [(''uuid'', \<lambda>type store. (Inr (Shared 0), store))]))
        (LogicalType ''logical:uuid'' StringType)
        (\<lambda>a. [(''type'', JStr ''string'')])
      = (Inr (Shared 0), (\<lambda>a. [(''type'', JStr ''string'')]))
   \<and> read (\<lambda>a. [(''type'', JStr ''string'')]) (Shared 0) = [(''type'', JStr ''string'')]
   \<and> fst (convertType_st
        (setupLogicalTypes_st (Some [(''uuid'', \<lambda>type store. (Inr (Shared 0), store))]))
        (RecordType [Field ''a'' (LogicalType ''logical:uuid'' StringType) (Some (JStr ''x''))])
        (\<lambda>a. [(''type'', JStr ''string'')]))
      = Inr (Fresh [(''type'', JStr ''object''), (''properties'', JObj [(''a'', JRef 0)]),
                    (''required'', JArr [])])
   \<and> snd (convertType_st
        (setupLogicalTypes_st (Some [(''uuid'', \<lambda>type store. (Inr (Shared 0), store))]))
        (RecordType [Field ''a'' (LogicalType ''logical:uuid'' StringType) (Some (JStr ''x''))])
        (\<lambda>a. [(''type'', JStr ''string'')])) 0
      = [(''type'', JStr ''string''), (''default'', JStr ''x'')]
   \<and> fst (convertType_st
        (setupLogicalTypes_st (Some [(''uuid'', \<lambda>type store. (Inr (Shared 0), store))]))
        (LogicalType ''logical:uuid'' StringType)
        (snd (convertType_st
          (setupLogicalTypes_st (Some [(''uuid'', \<lambda>type store. (Inr (Shared 0), store))]))
          (RecordType [Field ''a'' (LogicalType ''logical:uuid'' StringType) (Some (JStr ''x''))])
          (\<lambda>a. [(''type'', JStr ''string'')]))))
      = Inr (Shared 0)
   \<and> read (snd (convertType_st
        (setupLogicalTypes_st (Some [(''uuid'', \<lambda>type store. (Inr (Shared 0), store))]))
        (LogicalType ''logical:uuid'' StringType)
        (snd (convertType_st
          (setupLogicalTypes_st (Some [(''uuid'', \<lambda>type store. (Inr (Shared 0), store))]))
          (RecordType [Field ''a'' (LogicalType ''logical:uuid'' StringType) (Some (JStr ''x''))])
          (\<lambda>a. [(''type'', JStr ''string'')])))))
        (Shared 0)
      = [(''type'', JStr ''string''), (''default'', JStr ''x'')]"
proof -
  have "logical_name ''logical:uuid'' = ''uuid''"
    by (simp add: logical_name_def property_key_def)
  then show ?thesis
    by (simp add: convertType_st_Record convertType_st_Logical setupLogicalTypes_st_one
        js_get_def field_body_st_def js_set_def schema_fragment_def Let_def effect_free_def)
qed

text \<open>
  C10, amended. When every function of the registry is effect-free and returns a new
  object at every call (as the built-ins do), the conversion of a resolved tree, and
  \<^verbatim>\<open>convert\<close> itself for any type resolution \<open>forSchema\<close>, returns the store as it was
  given: no object that existed before the run is changed. It returns the same outcome
  from any two stores, so two runs on equal trees return equal outcomes; and what it
  returns, when it does not throw, is a new object.
\<close>

theorem conversion_adds_no_effect:
  assumes "list_all (\<lambda>(name, g). (\<forall>type. effect_free (g type)) \<and> returns_new_objects g)
      (logicalTypeConvertors this)"
  shows "snd (convertType_st this type s) = s
    \<and> fst (convertType_st this type s') = fst (convertType_st this type s)
    \<and> (\<exists>outcome. fst (convertType_st this type s) = fresh outcome)
    \<and> snd (convert_st forSchema this schema s) = s
    \<and> fst (convert_st forSchema this schema s') = fst (convert_st forSchema this schema s)
    \<and> (\<exists>outcome. fst (convert_st forSchema this schema s) = fresh outcome)"
proof -
  from convertType_st_new_objects[OF assms, of type] obtain r where
    r: "\<And>s. convertType_st this type s = (r, s)" and new: "\<And>a. r \<noteq> Inr (Shared a)"
    by auto
  from convert_st_new_objects[OF assms, of forSchema schema] obtain r' where
    r': "\<And>s. convert_st forSchema this schema s = (r', s)" and new': "\<And>a. r' \<noteq> Inr (Shared a)"
    by auto
  have fresh: "\<exists>outcome. x = fresh outcome" if "\<And>a. x \<noteq> Inr (Shared a)" for x
  proof (cases x)
    case (Inl e)
    then have "x = fresh (Inl e)" by (simp add: fresh_def)
    then show ?thesis ..
  next
    case (Inr converted)
    with that obtain object where "converted = Fresh object" by (cases converted) auto
    with Inr have "x = fresh (Inr object)" by (simp add: fresh_def)
    then show ?thesis ..
  qed
  from fresh[OF new] fresh[OF new'] show ?thesis
    by (simp add: r r')
qed

theorem conversion_adds_no_effect_witness:
  "list_all (\<lambda>(name, g). (\<forall>type. effect_free (g type)) \<and> returns_new_objects g)
     (logicalTypeConvertors (setupLogicalTypes_st None))
   \<and> snd (convertType_st (setupLogicalTypes_st None)
        (RecordType [Field ''t'' (LogicalType ''logical:date'' LongType) (Some (JNum 0))]) (\<lambda>a. [])) = (\<lambda>a. [])
   \<and> fst (convertType_st (setupLogicalTypes_st None)
        (RecordType [Field ''t'' (LogicalType ''logical:date'' LongType) (Some (JNum 0))]) (\<lambda>a. [(''type'', JStr ''string'')]))
     = fst (convertType_st (setupLogicalTypes_st None)
        (RecordType [Field ''t'' (LogicalType ''logical:date'' LongType) (Some (JNum 0))]) (\<lambda>a. []))
   \<and> (\<exists>outcome. fst (convertType_st (setupLogicalTypes_st None)
        (RecordType [Field ''t'' (LogicalType ''logical:date'' LongType) (Some (JNum 0))]) (\<lambda>a. [])) = fresh outcome)
   \<and> snd (convert_st (\<lambda>schema options. Inr schema) (setupLogicalTypes_st None)
        (RecordType [Field ''t'' (LogicalType ''logical:date'' LongType) (Some (JNum 0))]) (\<lambda>a. [])) = (\<lambda>a. [])
   \<and> fst (convert_st (\<lambda>schema options. Inr schema) (setupLogicalTypes_st None)
        (RecordType [Field ''t'' (LogicalType ''logical:date'' LongType) (Some (JNum 0))]) (\<lambda>a. [(''type'', JStr ''string'')]))
     = fst (convert_st (\<lambda>schema options. Inr schema) (setupLogicalTypes_st None)
        (RecordType [Field ''t'' (LogicalType ''logical:date'' LongType) (Some (JNum 0))]) (\<lambda>a. []))
   \<and> (\<exists>outcome. fst (convert_st (\<lambda>schema options. Inr schema) (setupLogicalTypes_st None)
        (RecordType [Field ''t'' (LogicalType ''logical:date'' LongType) (Some (JNum 0))]) (\<lambda>a. [])) = fresh outcome)"
proof -
  have h: "list_all (\<lambda>(name, g). (\<forall>type. effect_free (g type)) \<and> returns_new_objects g)
     (logicalTypeConvertors (setupLogicalTypes_st None))"
    by (simp add: setupLogicalTypes_st_None pure_function_effect_free
        pure_function_returns_new_objects)
  note law = conversion_adds_no_effect[OF h]
  show ?thesis
    by (intro conjI h law[THEN conjunct1]
        law[THEN conjunct2, THEN conjunct1]
        law[THEN conjunct2, THEN conjunct2, THEN conjunct1]
        law[THEN conjunct2, THEN conjunct2, THEN conjunct2, THEN conjunct1]
        law[THEN conjunct2, THEN conjunct2, THEN conjunct2, THEN conjunct2, THEN conjunct1]
        law[THEN conjunct2, THEN conjunct2, THEN conjunct2, THEN conjunct2, THEN conjunct2])
qed

end
